theory Spec2Isabelle
  imports Complex_Main
begin

section \<open>numpy-ros: conversion handlers for geometry\_msgs\<close>

text \<open>
  A shallow embedding of \<^verbatim>\<open>src/numpy_ros/geometry_msgs.py\<close>. Every Python function of
  the module is a HOL function of the same name (a leading underscore is dropped, since a
  HOL name cannot start with one). A raised exception is the \<open>Inl\<close> branch of a sum.

  Numbers are modelled by their real value. Where NumPy converts a number to a dtype
  (\<^verbatim>\<open>np.array(data, dtype=...)\<close>, \<^verbatim>\<open>float(...)\<close>), the stored value is given by a
  parameter \<open>cast\<close>: \<open>cast d v\<close> is the value of \<open>v\<close> converted to the dtype \<open>d\<close>, for
  instance the nearest double for \<open>Float64\<close>. Nothing is assumed of it.
\<close>

subsection \<open>Exceptions\<close>

text \<open>
  The module raises \<^verbatim>\<open>ValueError\<close> and \<^verbatim>\<open>TypeError\<close> with formatted messages; the
  interpreter and the libraries raise \<^verbatim>\<open>TypeError\<close>, \<^verbatim>\<open>ValueError\<close>,
  \<^verbatim>\<open>AttributeError\<close> and \<^verbatim>\<open>ZeroDivisionError\<close> of their own. The model keeps the exception class and replaces the
  message text by the site that raised it.
\<close>

datatype dtype =
    BoolD | Int8 | Int16 | Int32 | Int64 | UInt8 | UInt16 | UInt32 | UInt64
  | Float16 | Float32 | Float64 | LongDouble | Complex128 | ObjectD

datatype reason =
    BadShape "nat list"            \<comment> \<open>\<^verbatim>\<open>Expected ... of shape ..., received {shape}\<close>\<close>
  | NotCastable dtype dtype        \<comment> \<open>\<^verbatim>\<open>Cannot safely cast array ... to dtype ...\<close>\<close>
  | LastComponentNotOne real       \<comment> \<open>\<^verbatim>\<open>... but last component is ... != 1.\<close>\<close>
  | NotHomogeneousMatrix           \<comment> \<open>\<^verbatim>\<open>... is not a homogeneous matrix.\<close>\<close>
  | BadArguments nat               \<comment> \<open>\<^verbatim>\<open>Expected either position ... received {args}\<close>\<close>
  | AmbiguousTruthValue            \<comment> \<open>\<^verbatim>\<open>bool()\<close> of an array with more than one element\<close>
  | MissingArgument string         \<comment> \<open>a call with too few positional arguments\<close>
  | BadConstructorArguments        \<comment> \<open>a message constructor given the wrong number of values\<close>
  | ModuloByZero                   \<comment> \<open>\<^verbatim>\<open>N % sections\<close> in \<^verbatim>\<open>np.split\<close> with no section\<close>
  | CannotReshape nat              \<comment> \<open>\<^verbatim>\<open>reshape\<close> of an array of the wrong size\<close>
  | NotScalar                      \<comment> \<open>\<^verbatim>\<open>float()\<close> of an array that is not 0-dimensional\<close>
  | Inhomogeneous                  \<comment> \<open>\<^verbatim>\<open>np.array\<close> of rows of different lengths\<close>
  | NoAttribute string

datatype error =
  ValueError reason | TypeError reason | AttributeError reason | ZeroDivisionError reason

subsection \<open>Arrays\<close>

text \<open>
  An \<^verbatim>\<open>np.ndarray\<close>: its dtype, its shape and its elements in row-major order. A Python
  or NumPy scalar is an array of shape \<open>[]\<close>.
\<close>

record ndarray =
  dtype_of :: dtype
  shape :: "nat list"
  data :: "real list"

text \<open>\<^verbatim>\<open>np.can_cast(from, to)\<close> with the default \<^verbatim>\<open>casting='safe'\<close>.\<close>

definition can_cast :: "dtype \<Rightarrow> dtype \<Rightarrow> bool" where
  "can_cast d t =
     (t = ObjectD \<or>
      (case d of
         BoolD \<Rightarrow> True
       | Int8 \<Rightarrow> t \<in> {Int8, Int16, Int32, Int64, Float16, Float32, Float64, LongDouble, Complex128}
       | Int16 \<Rightarrow> t \<in> {Int16, Int32, Int64, Float32, Float64, LongDouble, Complex128}
       | Int32 \<Rightarrow> t \<in> {Int32, Int64, Float64, LongDouble, Complex128}
       | Int64 \<Rightarrow> t \<in> {Int64, Float64, LongDouble, Complex128}
       | UInt8 \<Rightarrow> t \<in> {UInt8, UInt16, UInt32, UInt64, Int16, Int32, Int64,
                        Float16, Float32, Float64, LongDouble, Complex128}
       | UInt16 \<Rightarrow> t \<in> {UInt16, UInt32, UInt64, Int32, Int64, Float32, Float64, LongDouble, Complex128}
       | UInt32 \<Rightarrow> t \<in> {UInt32, UInt64, Int64, Float64, LongDouble, Complex128}
       | UInt64 \<Rightarrow> t \<in> {UInt64, Float64, LongDouble, Complex128}
       | Float16 \<Rightarrow> t \<in> {Float16, Float32, Float64, LongDouble, Complex128}
       | Float32 \<Rightarrow> t \<in> {Float32, Float64, LongDouble, Complex128}
       | Float64 \<Rightarrow> t \<in> {Float64, LongDouble, Complex128}
       | LongDouble \<Rightarrow> t = LongDouble
       | Complex128 \<Rightarrow> t = Complex128
       | ObjectD \<Rightarrow> False))"

text \<open>
  \<^verbatim>\<open>np.min_scalar_type(a)\<close>: for a scalar, the smallest dtype of the smallest kind that
  holds the value; for an array that is not a scalar, the array's dtype unmodified.
  For a floating-point scalar NumPy compares the value with the literals \<^verbatim>\<open>65000\<close>,
  \<^verbatim>\<open>3.4e38\<close> and \<^verbatim>\<open>1.7e308\<close>, that is, with the doubles nearest to them.
\<close>

definition double_3_4e38 :: real where
  "double_3_4e38 = 8999725064576941 * 2 ^ 75"

definition double_1_7e308 :: real where
  "double_1_7e308 = 4258857765019067 * 2 ^ 972"

definition min_float :: "dtype \<Rightarrow> real \<Rightarrow> dtype" where
  "min_float d v =
     (if d = Float16 then Float16
      else if - 65000 < v \<and> v < 65000 then Float16
      else if d = Float32 then Float32
      else if - double_3_4e38 < v \<and> v < double_3_4e38 then Float32
      else if d = Float64 then Float64
      else if - double_1_7e308 < v \<and> v < double_1_7e308 then Float64
      else LongDouble)"

definition min_integer :: "real \<Rightarrow> dtype" where
  "min_integer v =
     (if 0 \<le> v then
        (if v \<le> 255 then UInt8 else if v \<le> 65535 then UInt16
         else if v \<le> 4294967295 then UInt32 else UInt64)
      else
        (if - 128 \<le> v then Int8 else if - 32768 \<le> v then Int16
         else if - 2147483648 \<le> v then Int32 else Int64))"

definition min_scalar_type :: "ndarray \<Rightarrow> dtype" where
  "min_scalar_type a =
     (case (shape a, data a) of
        ([], [v]) \<Rightarrow>
          (if dtype_of a \<in> {Float16, Float32, Float64, LongDouble} then min_float (dtype_of a) v
           else if dtype_of a \<in> {Int8, Int16, Int32, Int64, UInt8, UInt16, UInt32, UInt64}
             then min_integer v
           else dtype_of a)
      | _ \<Rightarrow> dtype_of a)"


text \<open>
  \<^verbatim>\<open>np.isclose(a, b)\<close> with the default tolerances \<^verbatim>\<open>rtol=1e-05\<close>, \<^verbatim>\<open>atol=1e-08\<close>,
  on the real values.
\<close>

definition isclose :: "real \<Rightarrow> real \<Rightarrow> bool" where
  "isclose a b = (\<bar>a - b\<bar> \<le> 1 / 10 ^ 8 + 1 / 10 ^ 5 * \<bar>b\<bar>)"

text \<open>Sequencing of calls that may raise: the first exception ends the computation.\<close>

definition ebind :: "error + 'a \<Rightarrow> ('a \<Rightarrow> error + 'b) \<Rightarrow> error + 'b" where
  "ebind m f = (case m of Inl e \<Rightarrow> Inl e | Inr v \<Rightarrow> f v)"

subsection \<open>Messages\<close>

text \<open>
  The classes imported from \<^verbatim>\<open>geometry_msgs.msg\<close>, and their instances. Python does not
  check the class of a nested message, so a field that holds a message holds any message;
  a field of a primitive type holds a number.
\<close>

datatype msg_class =
    Accel | AccelStamped | AccelWithCovariance | AccelWithCovarianceStamped
  | Inertia | InertiaStamped | Point | Point32 | PointStamped | Polygon
  | PolygonStamped | Pose | PoseStamped | Quaternion | QuaternionStamped
  | Transform | TransformStamped | Twist
  | TwistStamped | TwistWithCovariance | TwistWithCovarianceStamped | Vector3
  | Vector3Stamped | Wrench | WrenchStamped

record header =
  seq :: nat
  stamp :: "nat \<times> nat"
  frame_id :: string

datatype message =
    Vector3_msg real real real                     \<comment> \<open>x, y, z\<close>
  | Point_msg real real real                       \<comment> \<open>x, y, z\<close>
  | Point32_msg real real real                     \<comment> \<open>x, y, z\<close>
  | Quaternion_msg real real real real             \<comment> \<open>x, y, z, w\<close>
  | Accel_msg message message                      \<comment> \<open>linear, angular\<close>
  | Twist_msg message message                      \<comment> \<open>linear, angular\<close>
  | Wrench_msg message message                     \<comment> \<open>force, torque\<close>
  | AccelWithCovariance_msg message "real list"    \<comment> \<open>accel, covariance\<close>
  | TwistWithCovariance_msg message "real list"    \<comment> \<open>twist, covariance\<close>
  | Inertia_msg real message real real real real real real
      \<comment> \<open>m, com, ixx, ixy, ixz, iyy, iyz, izz\<close>
  | Polygon_msg "message list"                     \<comment> \<open>points\<close>
  | Pose_msg message message                       \<comment> \<open>position, orientation\<close>
  | Transform_msg message message                  \<comment> \<open>translation, rotation\<close>
  | AccelStamped_msg header message                \<comment> \<open>header, accel\<close>
  | AccelWithCovarianceStamped_msg header message  \<comment> \<open>header, accel\<close>
  | InertiaStamped_msg header message              \<comment> \<open>header, inertia\<close>
  | PointStamped_msg header message                \<comment> \<open>header, point\<close>
  | PolygonStamped_msg header message              \<comment> \<open>header, polygon\<close>
  | PoseStamped_msg header message                 \<comment> \<open>header, pose\<close>
  | QuaternionStamped_msg header message           \<comment> \<open>header, quaternion\<close>
  | TransformStamped_msg header message            \<comment> \<open>header, transform\<close>
  | TwistStamped_msg header message                \<comment> \<open>header, twist\<close>
  | TwistWithCovarianceStamped_msg header message  \<comment> \<open>header, twist\<close>
  | Vector3Stamped_msg header message              \<comment> \<open>header, vector\<close>
  | WrenchStamped_msg header message               \<comment> \<open>header, wrench\<close>

text \<open>\<^verbatim>\<open>message.__class__\<close>\<close>

definition class_of :: "message \<Rightarrow> msg_class" where
  "class_of m =
     (case m of
        Vector3_msg _ _ _ \<Rightarrow> Vector3
      | Point_msg _ _ _ \<Rightarrow> Point
      | Point32_msg _ _ _ \<Rightarrow> Point32
      | Quaternion_msg _ _ _ _ \<Rightarrow> Quaternion
      | Accel_msg _ _ \<Rightarrow> Accel
      | Twist_msg _ _ \<Rightarrow> Twist
      | Wrench_msg _ _ \<Rightarrow> Wrench
      | AccelWithCovariance_msg _ _ \<Rightarrow> AccelWithCovariance
      | TwistWithCovariance_msg _ _ \<Rightarrow> TwistWithCovariance
      | Inertia_msg _ _ _ _ _ _ _ _ \<Rightarrow> Inertia
      | Polygon_msg _ \<Rightarrow> Polygon
      | Pose_msg _ _ \<Rightarrow> Pose
      | Transform_msg _ _ \<Rightarrow> Transform
      | AccelStamped_msg _ _ \<Rightarrow> AccelStamped
      | AccelWithCovarianceStamped_msg _ _ \<Rightarrow> AccelWithCovarianceStamped
      | InertiaStamped_msg _ _ \<Rightarrow> InertiaStamped
      | PointStamped_msg _ _ \<Rightarrow> PointStamped
      | PolygonStamped_msg _ _ \<Rightarrow> PolygonStamped
      | PoseStamped_msg _ _ \<Rightarrow> PoseStamped
      | QuaternionStamped_msg _ _ \<Rightarrow> QuaternionStamped
      | TransformStamped_msg _ _ \<Rightarrow> TransformStamped
      | TwistStamped_msg _ _ \<Rightarrow> TwistStamped
      | TwistWithCovarianceStamped_msg _ _ \<Rightarrow> TwistWithCovarianceStamped
      | Vector3Stamped_msg _ _ \<Rightarrow> Vector3Stamped
      | WrenchStamped_msg _ _ \<Rightarrow> WrenchStamped)"

text \<open>
  \<^verbatim>\<open>getattr(message, name)\<close> for the attributes that hold a message. An attribute the
  instance does not have raises \<^verbatim>\<open>AttributeError\<close>.
\<close>

definition no_attribute :: "string \<Rightarrow> error + 'a" where
  "no_attribute a = Inl (AttributeError (NoAttribute a))"

definition getattr :: "message \<Rightarrow> string \<Rightarrow> error + message" where
  "getattr m a =
     (case m of
        Accel_msg l r \<Rightarrow>
          if a = ''linear'' then Inr l else if a = ''angular'' then Inr r else no_attribute a
      | Twist_msg l r \<Rightarrow>
          if a = ''linear'' then Inr l else if a = ''angular'' then Inr r else no_attribute a
      | Wrench_msg f t \<Rightarrow>
          if a = ''force'' then Inr f else if a = ''torque'' then Inr t else no_attribute a
      | AccelWithCovariance_msg k _ \<Rightarrow> if a = ''accel'' then Inr k else no_attribute a
      | TwistWithCovariance_msg k _ \<Rightarrow> if a = ''twist'' then Inr k else no_attribute a
      | Inertia_msg _ c _ _ _ _ _ _ \<Rightarrow> if a = ''com'' then Inr c else no_attribute a
      | Pose_msg p q \<Rightarrow>
          if a = ''position'' then Inr p else if a = ''orientation'' then Inr q
          else no_attribute a
      | Transform_msg p q \<Rightarrow>
          if a = ''translation'' then Inr p else if a = ''rotation'' then Inr q
          else no_attribute a
      | AccelStamped_msg _ p \<Rightarrow> if a = ''accel'' then Inr p else no_attribute a
      | AccelWithCovarianceStamped_msg _ p \<Rightarrow> if a = ''accel'' then Inr p else no_attribute a
      | InertiaStamped_msg _ p \<Rightarrow> if a = ''inertia'' then Inr p else no_attribute a
      | PointStamped_msg _ p \<Rightarrow> if a = ''point'' then Inr p else no_attribute a
      | PolygonStamped_msg _ p \<Rightarrow> if a = ''polygon'' then Inr p else no_attribute a
      | PoseStamped_msg _ p \<Rightarrow> if a = ''pose'' then Inr p else no_attribute a
      | QuaternionStamped_msg _ p \<Rightarrow> if a = ''quaternion'' then Inr p else no_attribute a
      | TransformStamped_msg _ p \<Rightarrow> if a = ''transform'' then Inr p else no_attribute a
      | TwistStamped_msg _ p \<Rightarrow> if a = ''twist'' then Inr p else no_attribute a
      | TwistWithCovarianceStamped_msg _ p \<Rightarrow> if a = ''twist'' then Inr p else no_attribute a
      | Vector3Stamped_msg _ p \<Rightarrow> if a = ''vector'' then Inr p else no_attribute a
      | WrenchStamped_msg _ p \<Rightarrow> if a = ''wrench'' then Inr p else no_attribute a
      | _ \<Rightarrow> no_attribute a)"

text \<open>The attributes that hold a number.\<close>

definition getattr_float :: "message \<Rightarrow> string \<Rightarrow> error + real" where
  "getattr_float m a =
     (case m of
        Vector3_msg x y z \<Rightarrow>
          if a = ''x'' then Inr x else if a = ''y'' then Inr y else if a = ''z'' then Inr z
          else no_attribute a
      | Point_msg x y z \<Rightarrow>
          if a = ''x'' then Inr x else if a = ''y'' then Inr y else if a = ''z'' then Inr z
          else no_attribute a
      | Point32_msg x y z \<Rightarrow>
          if a = ''x'' then Inr x else if a = ''y'' then Inr y else if a = ''z'' then Inr z
          else no_attribute a
      | Quaternion_msg x y z w \<Rightarrow>
          if a = ''x'' then Inr x else if a = ''y'' then Inr y else if a = ''z'' then Inr z
          else if a = ''w'' then Inr w else no_attribute a
      | Inertia_msg m _ ixx ixy ixz iyy iyz izz \<Rightarrow>
          if a = ''m'' then Inr m else if a = ''ixx'' then Inr ixx
          else if a = ''ixy'' then Inr ixy else if a = ''ixz'' then Inr ixz
          else if a = ''iyy'' then Inr iyy else if a = ''iyz'' then Inr iyz
          else if a = ''izz'' then Inr izz else no_attribute a
      | _ \<Rightarrow> no_attribute a)"

text \<open>\<^verbatim>\<open>message.covariance\<close> and \<^verbatim>\<open>message.points\<close>\<close>

definition getattr_covariance :: "message \<Rightarrow> error + real list" where
  "getattr_covariance m =
     (case m of
        AccelWithCovariance_msg _ c \<Rightarrow> Inr c
      | TwistWithCovariance_msg _ c \<Rightarrow> Inr c
      | _ \<Rightarrow> no_attribute ''covariance'')"

definition getattr_points :: "message \<Rightarrow> error + message list" where
  "getattr_points m =
     (case m of Polygon_msg ps \<Rightarrow> Inr ps | _ \<Rightarrow> no_attribute ''points'')"

subsection \<open>Unstamping\<close>

definition stamped_type_to_attr :: "msg_class \<rightharpoonup> string" where
  "stamped_type_to_attr = map_of [
     (AccelStamped, ''accel''),
     (AccelWithCovarianceStamped, ''accel''),
     (InertiaStamped, ''inertia''),
     (PointStamped, ''point''),
     (PolygonStamped, ''polygon''),
     (PoseStamped, ''pose''),
     (QuaternionStamped, ''quaternion''),
     (TransformStamped, ''transform''),
     (TwistStamped, ''twist''),
     (TwistWithCovarianceStamped, ''twist''),
     (Vector3Stamped, ''vector''),
     (WrenchStamped, ''wrench'')]"

definition unstamp :: "message \<Rightarrow> error + message" where
  "unstamp message =
     (case stamped_type_to_attr (class_of message) of
        None \<Rightarrow> Inr message
      | Some attr_name \<Rightarrow>
          if attr_name \<noteq> [] then getattr message attr_name else Inr message)"


subsection \<open>Cast safety\<close>

text \<open>
  The second argument of \<^verbatim>\<open>np.can_cast\<close> is anything NumPy converts to a dtype: a dtype,
  or a Python class. \<^verbatim>\<open>np.dtype\<close> of a class that is not a scalar type and has no
  \<^verbatim>\<open>dtype\<close> attribute, such as a message class, is the object dtype.
\<close>

datatype dtype_like = np_dtype dtype | py_class msg_class

definition as_dtype :: "dtype_like \<Rightarrow> dtype" where
  "as_dtype t = (case t of np_dtype d \<Rightarrow> d | py_class _ \<Rightarrow> ObjectD)"

definition assert_is_castable :: "ndarray \<Rightarrow> dtype_like \<Rightarrow> error + unit" where
  "assert_is_castable array dtype =
     (let min_dtype = min_scalar_type array in
      if \<not> can_cast min_dtype (as_dtype dtype)
      then Inl (TypeError (NotCastable min_dtype (as_dtype dtype)))
      else Inr ())"

subsection \<open>Vectors and points\<close>

text \<open>
  Modelled from the spec: the decorators \<^verbatim>\<open>converts_to_numpy\<close> and
  \<^verbatim>\<open>converts_to_message\<close> of \<^verbatim>\<open>numpy_ros.conversions\<close>, which is not among the
  sources. They enter the function in the conversion registry and leave the function
  itself as it is written, so each name of this module denotes the function below it.
\<close>

text \<open>
  \<^verbatim>\<open>np.array(data, dtype=dtype)\<close> of a flat list of numbers: each is converted to the
  dtype.
\<close>

definition np_array :: "(dtype \<Rightarrow> real \<Rightarrow> real) \<Rightarrow> real list \<Rightarrow> dtype \<Rightarrow> ndarray" where
  "np_array cast xs dtype =
     \<lparr>dtype_of = dtype, shape = [length xs], data = map (cast dtype) xs\<rparr>"

definition vector_to_numpy :: "(dtype \<Rightarrow> real \<Rightarrow> real) \<Rightarrow> message \<Rightarrow> bool \<Rightarrow> error + ndarray" where
  "vector_to_numpy cast message homogeneous =
     ebind (unstamp message) (\<lambda>message.
     ebind (getattr_float message ''x'') (\<lambda>x.
     ebind (getattr_float message ''y'') (\<lambda>y.
     ebind (getattr_float message ''z'') (\<lambda>z.
       let data = [x, y, z];
           data = (if homogeneous then data @ [1] else data);
           dtype = (if class_of message = Point32 then Float32 else Float64)
       in Inr (np_array cast data dtype)))))"

text \<open>
  \<^verbatim>\<open>message_type(*values)\<close> with numbers: the generated constructor raises
  \<^verbatim>\<open>TypeError\<close> unless it is given one value for each field of the class.
\<close>

definition construct :: "msg_class \<Rightarrow> real list \<Rightarrow> error + message" where
  "construct message_type values =
     (case (message_type, values) of
        (Vector3, [x, y, z]) \<Rightarrow> Inr (Vector3_msg x y z)
      | (Point, [x, y, z]) \<Rightarrow> Inr (Point_msg x y z)
      | (Point32, [x, y, z]) \<Rightarrow> Inr (Point32_msg x y z)
      | (Quaternion, [x, y, z, w]) \<Rightarrow> Inr (Quaternion_msg x y z w)
      | _ \<Rightarrow> Inl (TypeError BadConstructorArguments))"

definition numpy_to_vector :: "msg_class \<Rightarrow> ndarray \<Rightarrow> error + message" where
  "numpy_to_vector message_type array =
     (if shape array \<notin> {[3], [4]} then Inl (ValueError (BadShape (shape array)))
      else
        let dtype = (if message_type = Point32 then Float32 else Float64) in
        ebind (assert_is_castable array (np_dtype dtype)) (\<lambda>_.
          if hd (shape array) = 4 \<and> \<not> isclose (data array ! 3) 1
          then Inl (ValueError (LastComponentNotOne (data array ! 3)))
          else construct message_type (take 3 (data array))))"

text \<open>
  An array holds as many elements as its shape says; every \<^verbatim>\<open>np.ndarray\<close> does.
\<close>

definition wf_array :: "ndarray \<Rightarrow> bool" where
  "wf_array a = (length (data a) = prod_list (shape a))"


subsection \<open>Kinematics: Accel, Twist, Wrench\<close>

definition kinematics_to_numpy ::
  "(dtype \<Rightarrow> real \<Rightarrow> real) \<Rightarrow> message \<Rightarrow> bool \<Rightarrow> error + ndarray \<times> ndarray" where
  "kinematics_to_numpy cast message homogeneous =
     ebind (unstamp message) (\<lambda>message.
       let is_wrench = (class_of message = Wrench) in
       ebind (if is_wrench then getattr message ''force'' else getattr message ''linear'')
         (\<lambda>linear_message.
       ebind (if is_wrench then getattr message ''torque'' else getattr message ''angular'')
         (\<lambda>angular_message.
       ebind (vector_to_numpy cast linear_message homogeneous) (\<lambda>linear.
       ebind (vector_to_numpy cast angular_message homogeneous) (\<lambda>angular.
         Inr (linear, angular))))))"

text \<open>
  The call \<^verbatim>\<open>numpy_to_vector(a)\<close>, with one positional argument: the argument binds the
  parameter \<^verbatim>\<open>message_type\<close>, the parameter \<^verbatim>\<open>array\<close> has no value, and Python
  raises \<^verbatim>\<open>TypeError\<close> before the body runs. The same holds for
  \<^verbatim>\<open>numpy_to_quaternion(a)\<close> and its parameter \<^verbatim>\<open>numpy_obj\<close>.
\<close>

definition numpy_to_vector_1 :: "'a \<Rightarrow> error + message" where
  "numpy_to_vector_1 a = Inl (TypeError (MissingArgument ''array''))"

definition numpy_to_quaternion_1 :: "'a \<Rightarrow> error + message" where
  "numpy_to_quaternion_1 a = Inl (TypeError (MissingArgument ''numpy_obj''))"

text \<open>
  \<^verbatim>\<open>message_type(**{k1: v1, k2: v2})\<close> with two messages: the generated constructor
  raises \<^verbatim>\<open>AttributeError\<close> at the first keyword that is not a field of the class.
\<close>

definition fields :: "msg_class \<Rightarrow> string list" where
  "fields c =
     (if c \<in> {Vector3, Point, Point32} then [''x'', ''y'', ''z'']
      else if c = Quaternion then [''x'', ''y'', ''z'', ''w'']
      else if c \<in> {Accel, Twist} then [''linear'', ''angular'']
      else if c = Wrench then [''force'', ''torque'']
      else if c = AccelWithCovariance then [''accel'', ''covariance'']
      else if c = TwistWithCovariance then [''twist'', ''covariance'']
      else if c = Inertia
        then [''m'', ''com'', ''ixx'', ''ixy'', ''ixz'', ''iyy'', ''iyz'', ''izz'']
      else if c = Polygon then [''points'']
      else if c = Pose then [''position'', ''orientation'']
      else if c = Transform then [''translation'', ''rotation'']
      else case stamped_type_to_attr c of Some a \<Rightarrow> [''header'', a] | None \<Rightarrow> [])"

definition construct_kw ::
  "msg_class \<Rightarrow> string \<Rightarrow> message \<Rightarrow> string \<Rightarrow> message \<Rightarrow> error + message" where
  "construct_kw message_type k1 v1 k2 v2 =
     (if k1 \<notin> set (fields message_type) then no_attribute k1
      else if k2 \<notin> set (fields message_type) then no_attribute k2
      else if fields message_type \<noteq> [k1, k2] then Inl (TypeError BadConstructorArguments)
      else case message_type of
          Accel \<Rightarrow> Inr (Accel_msg v1 v2)
        | Twist \<Rightarrow> Inr (Twist_msg v1 v2)
        | Wrench \<Rightarrow> Inr (Wrench_msg v1 v2)
        | Pose \<Rightarrow> Inr (Pose_msg v1 v2)
        | Transform \<Rightarrow> Inr (Transform_msg v1 v2)
        | _ \<Rightarrow> Inl (TypeError BadConstructorArguments))"

definition numpy_to_kinamatics :: "msg_class \<Rightarrow> ndarray \<Rightarrow> ndarray \<Rightarrow> error + message" where
  "numpy_to_kinamatics message_type linear' angular =
     (let is_wrench = (message_type = Wrench);
          linear_key = (if is_wrench then ''force'' else ''linear'');
          angular_key = (if is_wrench then ''torque'' else ''angular'')
      in ebind (numpy_to_vector_1 linear') (\<lambda>l.
         ebind (numpy_to_vector_1 angular) (\<lambda>a.
           construct_kw message_type linear_key l angular_key a)))"

subsection \<open>Kinematics with covariance\<close>

text \<open>\<^verbatim>\<open>a.reshape(r, c)\<close> keeps the row-major elements and fails on a wrong size.\<close>

definition reshape :: "ndarray \<Rightarrow> nat \<Rightarrow> nat \<Rightarrow> error + ndarray" where
  "reshape a r c =
     (if length (data a) = r * c then Inr (a\<lparr>shape := [r, c]\<rparr>)
      else Inl (ValueError (CannotReshape (length (data a)))))"

text \<open>\<^verbatim>\<open>a[i, j]\<close> of a two-dimensional array, for indices in range.\<close>

definition at2 :: "ndarray \<Rightarrow> nat \<Rightarrow> nat \<Rightarrow> real" where
  "at2 a i j = data a ! (i * (shape a ! 1) + j)"

definition kinematics_with_covariance_to_numpy ::
  "(dtype \<Rightarrow> real \<Rightarrow> real) \<Rightarrow> message \<Rightarrow> bool \<Rightarrow> error + ndarray \<times> ndarray \<times> ndarray" where
  "kinematics_with_covariance_to_numpy cast message homogeneous =
     ebind (unstamp message) (\<lambda>message.
       let is_accel = (class_of message = AccelWithCovariance) in
       ebind (if is_accel then getattr message ''accel'' else getattr message ''twist'')
         (\<lambda>kinematics_message.
       ebind (kinematics_to_numpy cast kinematics_message homogeneous) (\<lambda>(linear, angular).
       ebind (getattr_covariance message) (\<lambda>c.
       ebind (reshape (np_array cast c Float64) 6 6) (\<lambda>covariance.
         Inr (linear, angular, covariance))))))"

definition numpy_to_covariance :: "ndarray \<Rightarrow> error + real list" where
  "numpy_to_covariance array =
     ebind (assert_is_castable array (np_dtype Float64)) (\<lambda>_.
       if shape array \<noteq> [6, 6] then Inl (ValueError (BadShape (shape array)))
       else Inr (data array))"

definition numpy_to_kinematics_with_covariance ::
  "msg_class \<Rightarrow> ndarray \<Rightarrow> ndarray \<Rightarrow> ndarray \<Rightarrow> error + message" where
  "numpy_to_kinematics_with_covariance message_type linear' angular covariance =
     (let is_accel = (message_type = AccelWithCovariance);
          kinematics_key = (if is_accel then ''accel'' else ''twist'');
          kinematics_message_type = (if is_accel then Accel else Twist)
      in ebind (numpy_to_kinamatics kinematics_message_type linear' angular)
           (\<lambda>kinematics_message.
         ebind (numpy_to_covariance covariance) (\<lambda>covariance_message.
           if message_type = AccelWithCovariance \<and> kinematics_key = ''accel''
             then Inr (AccelWithCovariance_msg kinematics_message covariance_message)
           else if message_type = TwistWithCovariance \<and> kinematics_key = ''twist''
             then Inr (TwistWithCovariance_msg kinematics_message covariance_message)
           else if kinematics_key \<notin> set (fields message_type) then no_attribute kinematics_key
           else if ''covariance'' \<notin> set (fields message_type) then no_attribute ''covariance''
           else Inl (TypeError BadConstructorArguments))))"


subsection \<open>Inertia\<close>

text \<open>
  \<^verbatim>\<open>np.array(rows)\<close> without a dtype infers one from the Python numbers: float64 when one
  of them is a float, an integer dtype when all are integers. The real value of a number
  does not tell which it is, so the inferred dtype is a parameter \<open>result_type\<close> of the
  list of numbers.
\<close>

definition inertia_to_numpy ::
  "(dtype \<Rightarrow> real \<Rightarrow> real) \<Rightarrow> (real list \<Rightarrow> dtype) \<Rightarrow> message \<Rightarrow> bool
     \<Rightarrow> error + real \<times> ndarray \<times> ndarray" where
  "inertia_to_numpy cast result_type message homogeneous =
     ebind (unstamp message) (\<lambda>message.
     ebind (getattr_float message ''m'') (\<lambda>mass.
     ebind (getattr message ''com'') (\<lambda>com.
     ebind (vector_to_numpy cast com homogeneous) (\<lambda>mass_center.
     ebind (getattr_float message ''ixx'') (\<lambda>ixx.
     ebind (getattr_float message ''ixy'') (\<lambda>ixy.
     ebind (getattr_float message ''ixz'') (\<lambda>ixz.
     ebind (getattr_float message ''iyy'') (\<lambda>iyy.
     ebind (getattr_float message ''iyz'') (\<lambda>iyz.
     ebind (getattr_float message ''izz'') (\<lambda>izz.
       let rows = [ixx, ixy, ixz,
                   ixy, iyy, iyz,
                   ixz, iyz, izz];
           inertia_tensor =
             \<lparr>dtype_of = result_type rows, shape = [3, 3],
              data = map (cast (result_type rows)) rows\<rparr>
       in Inr (mass, mass_center, inertia_tensor)))))))))))"

text \<open>
  \<^verbatim>\<open>float(a)\<close>: the double nearest to a scalar; \<^verbatim>\<open>TypeError\<close> for an array that is
  not 0-dimensional (NumPy 2).
\<close>

definition float_of :: "(dtype \<Rightarrow> real \<Rightarrow> real) \<Rightarrow> ndarray \<Rightarrow> error + real" where
  "float_of cast a =
     (case (shape a, data a) of
        ([], [v]) \<Rightarrow> Inr (cast Float64 v)
      | _ \<Rightarrow> Inl (TypeError NotScalar))"

definition numpy_to_inertia ::
  "(dtype \<Rightarrow> real \<Rightarrow> real) \<Rightarrow> msg_class \<Rightarrow> ndarray \<Rightarrow> ndarray \<Rightarrow> ndarray
     \<Rightarrow> error + message" where
  "numpy_to_inertia cast message_type mass mass_center inertia_tensor =
     ebind (assert_is_castable mass (np_dtype Float64)) (\<lambda>_.
     ebind (assert_is_castable inertia_tensor (np_dtype Float64)) (\<lambda>_.
     ebind (numpy_to_vector Vector3 mass_center) (\<lambda>mass_center_message.
       if shape inertia_tensor \<noteq> [3, 3]
       then Inl (ValueError (BadShape (shape inertia_tensor)))
       else
         ebind (float_of cast mass) (\<lambda>m.
           if message_type = Inertia then
             Inr (Inertia_msg m mass_center_message
                    (at2 inertia_tensor 0 0)
                    (at2 inertia_tensor 0 1)
                    (at2 inertia_tensor 0 2)
                    (at2 inertia_tensor 1 1)
                    (at2 inertia_tensor 2 1)
                    (at2 inertia_tensor 2 2))
           else if ''m'' \<notin> set (fields message_type) then no_attribute ''m''
           else Inl (TypeError BadConstructorArguments)))))"

subsection \<open>Polygons\<close>

primrec emap :: "('a \<Rightarrow> error + 'b) \<Rightarrow> 'a list \<Rightarrow> error + 'b list" where
  "emap f [] = Inr []"
| "emap f (x # xs) = ebind (f x) (\<lambda>y. ebind (emap f xs) (\<lambda>ys. Inr (y # ys)))"

text \<open>
  \<^verbatim>\<open>np.array(rows, dtype=np.float32).T\<close> of a list of one-dimensional arrays of one
  length: no row gives the empty array of shape \<open>(0,)\<close>, which is its own transpose.
\<close>

definition to_float32 :: "(dtype \<Rightarrow> real \<Rightarrow> real) \<Rightarrow> ndarray \<Rightarrow> nat \<Rightarrow> real" where
  "to_float32 cast p i =
     (if dtype_of p = Float32 then data p ! i else cast Float32 (data p ! i))"

definition stack_T :: "(dtype \<Rightarrow> real \<Rightarrow> real) \<Rightarrow> ndarray list \<Rightarrow> ndarray" where
  "stack_T cast rows =
     (case rows of
        [] \<Rightarrow> \<lparr>dtype_of = Float32, shape = [0], data = []\<rparr>
      | r # _ \<Rightarrow>
          \<lparr>dtype_of = Float32, shape = [hd (shape r), length rows],
           data = concat (map (\<lambda>i. map (\<lambda>p. to_float32 cast p i) rows)
                            [0 ..< hd (shape r)])\<rparr>)"

definition polygon_to_numpy :: "(dtype \<Rightarrow> real \<Rightarrow> real) \<Rightarrow> message \<Rightarrow> bool \<Rightarrow> error + ndarray" where
  "polygon_to_numpy cast message homogeneous =
     ebind (unstamp message) (\<lambda>message.
     ebind (getattr_points message) (\<lambda>ps.
     ebind (emap (\<lambda>p. vector_to_numpy cast p homogeneous) ps) (\<lambda>points.
       Inr (stack_T cast points))))"

text \<open>
  \<^verbatim>\<open>[p.squeeze() for p in np.hsplit(points, n)]\<close> for a two-dimensional array with
  \<open>n\<close> columns: \<^verbatim>\<open>np.split\<close> computes \<^verbatim>\<open>N % sections\<close> and so raises
  \<^verbatim>\<open>ZeroDivisionError\<close> for no section; a column of a single row squeezes to a scalar.
\<close>

definition hsplit_squeeze :: "ndarray \<Rightarrow> nat \<Rightarrow> error + ndarray list" where
  "hsplit_squeeze points n =
     (if n = 0 then Inl (ZeroDivisionError ModuloByZero)
      else Inr (map (\<lambda>j. \<lparr>dtype_of = dtype_of points,
                          shape = (if hd (shape points) = 1 then [] else [hd (shape points)]),
                          data = map (\<lambda>i. at2 points i j) [0 ..< hd (shape points)]\<rparr>)
                  [0 ..< n]))"

definition numpy_to_polygon :: "msg_class \<Rightarrow> ndarray \<Rightarrow> error + message" where
  "numpy_to_polygon message_type points =
     ebind (assert_is_castable points (np_dtype Float32)) (\<lambda>_.
       if length (shape points) \<noteq> 2 \<or> hd (shape points) \<notin> {3, 4}
       then Inl (ValueError (BadShape (shape points)))
       else
         ebind (hsplit_squeeze points (shape points ! 1)) (\<lambda>columns.
         ebind (emap (numpy_to_vector Point32) columns) (\<lambda>points_msg.
           if message_type = Polygon then Inr (Polygon_msg points_msg)
           else Inl (TypeError BadConstructorArguments))))"


subsection \<open>Quaternions\<close>

text \<open>
  A value of \<^verbatim>\<open>np.quaternion\<close>. Its constructor takes the components in the order
  \<open>w, x, y, z\<close>, and \<^verbatim>\<open>quaternion.as_float_array\<close> returns them in that order.
\<close>

datatype quat = np_quaternion (qw: real) (qx: real) (qy: real) (qz: real)


datatype numpy_obj = quat_obj quat | array_obj ndarray

definition quaternion_to_numpy :: "message \<Rightarrow> error + quat" where
  "quaternion_to_numpy message =
     ebind (unstamp message) (\<lambda>message.
     ebind (getattr_float message ''x'') (\<lambda>x.
     ebind (getattr_float message ''y'') (\<lambda>y.
     ebind (getattr_float message ''z'') (\<lambda>z.
     ebind (getattr_float message ''w'') (\<lambda>w.
       Inr (np_quaternion x y z w))))))"


subsection \<open>Poses and transforms\<close>

text \<open>
  \<^verbatim>\<open>quaternion.as_rotation_matrix\<close> and \<^verbatim>\<open>quaternion.from_rotation_matrix\<close> belong to
  the quaternion library; they are parameters \<open>as_rot\<close> (the nine entries, row-major) and
  \<open>from_rot\<close> of the model.
\<close>

datatype frame = frame_matrix ndarray | frame_pair ndarray quat

definition frame_to_numpy ::
  "(dtype \<Rightarrow> real \<Rightarrow> real) \<Rightarrow> (quat \<Rightarrow> error + real list) \<Rightarrow> message \<Rightarrow> bool \<Rightarrow> error + frame" where
  "frame_to_numpy cast as_rot message homogeneous =
     ebind (unstamp message) (\<lambda>message.
       let is_pose = (class_of message = Pose) in
       ebind (if is_pose then getattr message ''position''
              else getattr message ''translation'') (\<lambda>position_message.
       ebind (if is_pose then getattr message ''orientation''
              else getattr message ''rotation'') (\<lambda>rotation_message.
       ebind (vector_to_numpy cast position_message homogeneous) (\<lambda>position.
       ebind (quaternion_to_numpy rotation_message) (\<lambda>rotation.
         if homogeneous then
           ebind (as_rot rotation) (\<lambda>r.
             Inr (frame_matrix
               \<lparr>dtype_of = Float64, shape = [4, 4],
                data = [r ! 0, r ! 1, r ! 2, data position ! 0,
                        r ! 3, r ! 4, r ! 5, data position ! 1,
                        r ! 6, r ! 7, r ! 8, data position ! 2,
                        0, 0, 0, data position ! 3]\<rparr>))
         else Inr (frame_pair position rotation))))))"

text \<open>
  \<^verbatim>\<open>bool(a)\<close> of an array, as the \<^verbatim>\<open>not\<close> operator asks for it: an array with more
  than one element has no truth value.
\<close>

definition truth_value :: "nat list \<Rightarrow> bool list \<Rightarrow> error + bool" where
  "truth_value shp bs =
     (if prod_list shp = 1 then Inr (hd bs)
      else if prod_list shp = 0 then Inr False
      else Inl (ValueError AmbiguousTruthValue))"

text \<open>The sub-arrays \<^verbatim>\<open>matrix[3, :]\<close> and \<^verbatim>\<open>matrix[:3, :3]\<close> of a \<open>(4,4)\<close> array.\<close>

definition bottom_row :: "ndarray \<Rightarrow> ndarray" where
  "bottom_row matrix =
     \<lparr>dtype_of = dtype_of matrix, shape = [4], data = map (at2 matrix 3) [0 ..< 4]\<rparr>"

definition top_left :: "ndarray \<Rightarrow> ndarray" where
  "top_left matrix =
     \<lparr>dtype_of = dtype_of matrix, shape = [3, 3],
      data = concat (map (\<lambda>i. map (at2 matrix i) [0 ..< 3]) [0 ..< 3])\<rparr>"

definition numpy_to_frame ::
  "(ndarray \<Rightarrow> quat) \<Rightarrow> msg_class \<Rightarrow> numpy_obj list \<Rightarrow> error + message" where
  "numpy_to_frame from_rot message_type args =
     (let is_pose = (message_type = Pose);
          position_key = (if is_pose then ''position'' else ''translation'');
          rotation_key = (if is_pose then ''orientation'' else ''rotation'')
      in
      ebind
        (case args of
           [array_obj matrix] \<Rightarrow>
             ebind (assert_is_castable matrix (py_class Pose)) (\<lambda>_.
               if \<not> (shape matrix = [4, 4]) then Inl (ValueError (BadShape (shape matrix)))
               else
                 ebind (truth_value (shape (bottom_row matrix))
                          (map2 (=) (data (bottom_row matrix)) [0, 0, 0, 1])) (\<lambda>b.
                   if \<not> b then Inl (ValueError NotHomogeneousMatrix)
                   else Inr (array_obj (bottom_row matrix),
                             quat_obj (from_rot (top_left matrix)))))
         | [quat_obj q] \<Rightarrow> Inl (ValueError (BadShape []))
         | [position, rotation] \<Rightarrow> Inr (position, rotation)
         | _ \<Rightarrow> Inl (ValueError (BadArguments (length args))))
        (\<lambda>(position, rotation).
           ebind (numpy_to_vector_1 position) (\<lambda>p.
           ebind (numpy_to_quaternion_1 rotation) (\<lambda>r.
             construct_kw message_type position_key p rotation_key r))))"


subsection \<open>Well-formed inputs\<close>

text \<open>A message of one of the twelve stamped classes.\<close>

definition is_stamped :: "message \<Rightarrow> bool" where
  "is_stamped m = (stamped_type_to_attr (class_of m) \<noteq> None)"

text \<open>
  Column \<open>j\<close> of a two-dimensional array as a one-dimensional array: an element of
  \<^verbatim>\<open>np.hsplit(points, n)\<close> after \<^verbatim>\<open>squeeze()\<close>, for an array of more than one row.
\<close>

definition column :: "ndarray \<Rightarrow> nat \<Rightarrow> ndarray" where
  "column points j =
     \<lparr>dtype_of = dtype_of points, shape = [hd (shape points)],
      data = map (\<lambda>i. at2 points i j) [0 ..< hd (shape points)]\<rparr>"

section \<open>Properties\<close>

subsection \<open>Sequencing and small facts\<close>

lemma lt3: "(i::nat) < 3 \<Longrightarrow> i = 0 \<or> i = 1 \<or> i = 2"
  by arith

lemma ebind_Inr: "ebind (Inr v) f = f v"
  by (simp add: ebind_def)

lemma ebind_Inl: "ebind (Inl e) f = Inl e"
  by (simp add: ebind_def)

lemma ebind_cong: "m = m' \<Longrightarrow> (\<And>v. m' = Inr v \<Longrightarrow> f v = g v) \<Longrightarrow> ebind m f = ebind m' g"
  by (cases m') (simp_all add: ebind_def)

lemma ebind_InrE:
  assumes "ebind m f = Inr r"
  obtains v where "m = Inr v" and "f v = Inr r"
  using assms by (cases m) (simp_all add: ebind_def)

lemma unstamp_Inertia:
  "unstamp (Inertia_msg m com ixx ixy ixz iyy iyz izz) = Inr (Inertia_msg m com ixx ixy ixz iyy iyz izz)"
  by (simp add: unstamp_def class_of_def stamped_type_to_attr_def)

lemma getattr_Inertia:
  "getattr (Inertia_msg m com ixx ixy ixz iyy iyz izz) ''com'' = Inr com"
  "getattr_float (Inertia_msg m com ixx ixy ixz iyy iyz izz) ''m'' = Inr m"
  "getattr_float (Inertia_msg m com ixx ixy ixz iyy iyz izz) ''ixx'' = Inr ixx"
  "getattr_float (Inertia_msg m com ixx ixy ixz iyy iyz izz) ''ixy'' = Inr ixy"
  "getattr_float (Inertia_msg m com ixx ixy ixz iyy iyz izz) ''ixz'' = Inr ixz"
  "getattr_float (Inertia_msg m com ixx ixy ixz iyy iyz izz) ''iyy'' = Inr iyy"
  "getattr_float (Inertia_msg m com ixx ixy ixz iyy iyz izz) ''iyz'' = Inr iyz"
  "getattr_float (Inertia_msg m com ixx ixy ixz iyy iyz izz) ''izz'' = Inr izz"
  by (simp_all add: getattr_def getattr_float_def)

subsection \<open>Pose and transform encoder, matrix form\<close>

text \<open>
  C1. The matrix form of \<^verbatim>\<open>numpy_to_frame\<close> should reject a wrong shape, reject a
  bottom row other than \<open>(0,0,0,1)\<close>, and build the message otherwise. The code never
  builds a message: the test \<^verbatim>\<open>not matrix[3, :] == np.array([0.0, 0.0, 0.0, 1.0])\<close> asks
  for the truth value of an array of four booleans, so every matrix of shape \<open>(4,4)\<close>,
  whatever its bottom row, raises the \<^verbatim>\<open>ValueError\<close> of the ambiguous truth value.
\<close>

theorem numpy_to_frame_matrix_raises:
  assumes "shape matrix = [4, 4]"
  shows "numpy_to_frame from_rot message_type [array_obj matrix]
           = Inl (ValueError AmbiguousTruthValue)"
  using assms
  by (simp add: numpy_to_frame_def assert_is_castable_def as_dtype_def can_cast_def ebind_def
      truth_value_def bottom_row_def Let_def)

theorem numpy_to_frame_matrix_raises_witness:
  "shape \<lparr>dtype_of = Float64, shape = [4, 4],
          data = [1, 0, 0, 0,  0, 1, 0, 0,  0, 0, 1, 0,  0, 0, 0, 1]\<rparr> = [4, 4] \<and>
   numpy_to_frame (\<lambda>_. np_quaternion 1 0 0 0) Pose
     [array_obj \<lparr>dtype_of = Float64, shape = [4, 4],
                 data = [1, 0, 0, 0,  0, 1, 0, 0,  0, 0, 1, 0,  0, 0, 0, 1]\<rparr>]
     = Inl (ValueError AmbiguousTruthValue)"
  using numpy_to_frame_matrix_raises
          [of "\<lparr>dtype_of = Float64, shape = [4, 4],
                data = [1, 0, 0, 0,  0, 1, 0, 0,  0, 0, 1, 0,  0, 0, 0, 1]\<rparr>"
              "\<lambda>_. np_quaternion 1 0 0 0" Pose]
  by simp

subsection \<open>Kinematics encoder\<close>

text \<open>
  C2. \<^verbatim>\<open>numpy_to_kinamatics\<close> should build an Accel, Twist or Wrench from two arrays.
  It calls \<^verbatim>\<open>numpy_to_vector(linear)\<close> without the message type, so for every target
  type and every pair of arrays it raises \<^verbatim>\<open>TypeError\<close> and builds nothing.
\<close>

theorem numpy_to_kinamatics_raises:
  "numpy_to_kinamatics message_type linear' angular
     = Inl (TypeError (MissingArgument ''array''))"
  by (simp add: numpy_to_kinamatics_def numpy_to_vector_1_def ebind_def Let_def)

subsection \<open>Cast safety of the point encoder\<close>

text \<open>
  C3. Encoding \<open>[1.0, 2.0, 3.0]\<close> as a Point32 should succeed. The array
  \<^verbatim>\<open>np.array([1.0, 2.0, 3.0])\<close> has dtype float64; \<^verbatim>\<open>np.min_scalar_type\<close> of an array
  is its dtype, whatever its elements, and float64 is not safely cast to float32: the
  encoder raises the cast error.
\<close>

theorem numpy_to_vector_Point32_float64:
  "numpy_to_vector Point32 \<lparr>dtype_of = Float64, shape = [3], data = [1, 2, 3]\<rparr>
     = Inl (TypeError (NotCastable Float64 Float32))"
  by (simp add: numpy_to_vector_def assert_is_castable_def min_scalar_type_def can_cast_def
      as_dtype_def ebind_def)

subsection \<open>Cast check of the matrix form\<close>

text \<open>
  C9. The matrix form should check that the matrix is castable to float64. The code
  checks against the class \<^verbatim>\<open>Pose\<close>, which NumPy reads as the object dtype: the check
  passes for every array. A matrix of dtype object, which is not castable to float64, passes
  it and goes on to the truth-value error.
\<close>

theorem assert_is_castable_Pose_passes:
  "assert_is_castable matrix (py_class Pose) = Inr () \<and>
   assert_is_castable \<lparr>dtype_of = ObjectD, shape = [4, 4],
       data = [1, 0, 0, 0,  0, 1, 0, 0,  0, 0, 1, 0,  0, 0, 0, 1]\<rparr> (np_dtype Float64)
     = Inl (TypeError (NotCastable ObjectD Float64)) \<and>
   numpy_to_frame from_rot Pose
     [array_obj \<lparr>dtype_of = ObjectD, shape = [4, 4],
                 data = [1, 0, 0, 0,  0, 1, 0, 0,  0, 0, 1, 0,  0, 0, 0, 1]\<rparr>]
     = Inl (ValueError AmbiguousTruthValue)"
  by (simp add: assert_is_castable_def as_dtype_def can_cast_def min_scalar_type_def
      numpy_to_frame_def ebind_def truth_value_def bottom_row_def Let_def)

subsection \<open>Quaternion round trip\<close>



subsection \<open>Unstamping\<close>

lemma unstamp_returns: "\<exists>p. unstamp m = Inr p"
  by (cases m) (simp_all add: unstamp_def class_of_def stamped_type_to_attr_def getattr_def)

lemma unstamp_bare: "\<not> is_stamped m \<Longrightarrow> unstamp m = Inr m"
  by (auto simp add: is_stamped_def unstamp_def)

lemma unstamp_stamped:
  "stamped_type_to_attr (class_of m) = Some a \<Longrightarrow> unstamp m = getattr m a"
  by (cases m) (auto simp add: unstamp_def class_of_def stamped_type_to_attr_def)

lemma unstamp_payload:
  "unstamp (AccelStamped_msg h p) = Inr p"
  "unstamp (AccelWithCovarianceStamped_msg h p) = Inr p"
  "unstamp (InertiaStamped_msg h p) = Inr p"
  "unstamp (PointStamped_msg h p) = Inr p"
  "unstamp (PolygonStamped_msg h p) = Inr p"
  "unstamp (PoseStamped_msg h p) = Inr p"
  "unstamp (QuaternionStamped_msg h p) = Inr p"
  "unstamp (TransformStamped_msg h p) = Inr p"
  "unstamp (TwistStamped_msg h p) = Inr p"
  "unstamp (TwistWithCovarianceStamped_msg h p) = Inr p"
  "unstamp (Vector3Stamped_msg h p) = Inr p"
  "unstamp (WrenchStamped_msg h p) = Inr p"
  by (simp_all add: unstamp_def class_of_def stamped_type_to_attr_def getattr_def)

lemma decode_unstamped:
  assumes "unstamp m = Inr p" and "\<not> is_stamped p"
  shows "vector_to_numpy cast m hom = vector_to_numpy cast p hom"
    and "kinematics_to_numpy cast m hom = kinematics_to_numpy cast p hom"
    and "kinematics_with_covariance_to_numpy cast m hom
           = kinematics_with_covariance_to_numpy cast p hom"
    and "inertia_to_numpy cast result_type m hom = inertia_to_numpy cast result_type p hom"
    and "polygon_to_numpy cast m hom = polygon_to_numpy cast p hom"
    and "quaternion_to_numpy m = quaternion_to_numpy p"
    and "frame_to_numpy cast as_rot m hom = frame_to_numpy cast as_rot p hom"
  using assms unstamp_bare [of p]
  by (simp_all add: vector_to_numpy_def kinematics_to_numpy_def
      kinematics_with_covariance_to_numpy_def inertia_to_numpy_def polygon_to_numpy_def
      quaternion_to_numpy_def frame_to_numpy_def ebind_def)

lemma construct_xyz:
  "mt \<in> {Vector3, Point, Point32} \<Longrightarrow>
   \<exists>m. construct mt [x, y, z] = Inr m \<and> class_of m = mt \<and>
       getattr_float m ''x'' = Inr x \<and> getattr_float m ''y'' = Inr y \<and>
       getattr_float m ''z'' = Inr z"
  by (auto simp add: construct_def class_of_def getattr_float_def)

lemma take3: "length xs = 4 \<Longrightarrow> take 3 xs = [xs ! 0, xs ! 1, xs ! 2]"
  by (cases xs; cases "tl xs"; cases "tl (tl xs)") auto


text \<open>
  C6. \<^verbatim>\<open>_unstamp\<close> never fails; it returns the payload attribute of a message of a
  stamped class and any other message unchanged. Hence each decoder returns for a stamped
  message what it returns for the payload, the payload being a bare message as the
  message definitions have it.
\<close>

theorem unstamp_total_and_decoders_agree:
  "(\<exists>p. unstamp m = Inr p) \<and>
   (stamped_type_to_attr (class_of m) = None \<longrightarrow> unstamp m = Inr m) \<and>
   (\<forall>a. stamped_type_to_attr (class_of m) = Some a \<longrightarrow> unstamp m = getattr m a) \<and>
   unstamp (AccelStamped_msg h q) = Inr q \<and>
   unstamp (AccelWithCovarianceStamped_msg h q) = Inr q \<and>
   unstamp (InertiaStamped_msg h q) = Inr q \<and>
   unstamp (PointStamped_msg h q) = Inr q \<and>
   unstamp (PolygonStamped_msg h q) = Inr q \<and>
   unstamp (PoseStamped_msg h q) = Inr q \<and>
   unstamp (QuaternionStamped_msg h q) = Inr q \<and>
   unstamp (TransformStamped_msg h q) = Inr q \<and>
   unstamp (TwistStamped_msg h q) = Inr q \<and>
   unstamp (TwistWithCovarianceStamped_msg h q) = Inr q \<and>
   unstamp (Vector3Stamped_msg h q) = Inr q \<and>
   unstamp (WrenchStamped_msg h q) = Inr q \<and>
   (unstamp m = Inr p \<and> \<not> is_stamped p \<longrightarrow>
      vector_to_numpy cast m hom = vector_to_numpy cast p hom \<and>
      kinematics_to_numpy cast m hom = kinematics_to_numpy cast p hom \<and>
      kinematics_with_covariance_to_numpy cast m hom
        = kinematics_with_covariance_to_numpy cast p hom \<and>
      inertia_to_numpy cast result_type m hom = inertia_to_numpy cast result_type p hom \<and>
      polygon_to_numpy cast m hom = polygon_to_numpy cast p hom \<and>
      quaternion_to_numpy m = quaternion_to_numpy p \<and>
      frame_to_numpy cast as_rot m hom = frame_to_numpy cast as_rot p hom)"
proof -
  have bare: "stamped_type_to_attr (class_of m) = None \<longrightarrow> unstamp m = Inr m"
    by (simp add: unstamp_def)
  have agree: "unstamp m = Inr p \<and> \<not> is_stamped p \<longrightarrow>
      vector_to_numpy cast m hom = vector_to_numpy cast p hom \<and>
      kinematics_to_numpy cast m hom = kinematics_to_numpy cast p hom \<and>
      kinematics_with_covariance_to_numpy cast m hom
        = kinematics_with_covariance_to_numpy cast p hom \<and>
      inertia_to_numpy cast result_type m hom = inertia_to_numpy cast result_type p hom \<and>
      polygon_to_numpy cast m hom = polygon_to_numpy cast p hom \<and>
      quaternion_to_numpy m = quaternion_to_numpy p \<and>
      frame_to_numpy cast as_rot m hom = frame_to_numpy cast as_rot p hom"
    using decode_unstamped [of m p] by blast
  show ?thesis
    using unstamp_returns [of m] unstamp_stamped [of m] bare agree
    by (simp only: unstamp_payload simp_thms) blast
qed

theorem unstamp_total_and_decoders_agree_witness:
  "unstamp (Point_msg 1 2 3) = Inr (Point_msg 1 2 3) \<and>
   unstamp (PointStamped_msg \<lparr>seq = 7, stamp = (1, 2), frame_id = ''map''\<rparr> (Point_msg 1 2 3))
     = Inr (Point_msg 1 2 3) \<and>
   vector_to_numpy (\<lambda>d v. v)
       (PointStamped_msg \<lparr>seq = 7, stamp = (1, 2), frame_id = ''map''\<rparr> (Point_msg 1 2 3)) True
     = vector_to_numpy (\<lambda>d v. v) (Point_msg 1 2 3) True \<and>
   vector_to_numpy (\<lambda>d v. v) (Point_msg 1 2 3) True
     = Inr \<lparr>dtype_of = Float64, shape = [4], data = [1, 2, 3, 1]\<rparr>"
  using unstamp_total_and_decoders_agree [of "Point_msg 1 2 3"]
    unstamp_total_and_decoders_agree
      [of "PointStamped_msg \<lparr>seq = 7, stamp = (1, 2), frame_id = ''map''\<rparr> (Point_msg 1 2 3)"
          "\<lparr>seq = 7, stamp = (1, 2), frame_id = ''map''\<rparr>" "Point_msg 1 2 3"
          "Point_msg 1 2 3" "\<lambda>d v. v" True]
  by (simp add: is_stamped_def class_of_def stamped_type_to_attr_def vector_to_numpy_def
      unstamp_def getattr_float_def np_array_def ebind_def)

subsection \<open>Shape and homogeneous component of the point encoder\<close>

text \<open>
  C4, as the code has it. An array of a shape other than \<open>(3,)\<close> or \<open>(4,)\<close> raises the
  shape error. The cast check comes next: an array of shape \<open>(3,)\<close> or \<open>(4,)\<close> that fails
  it raises the cast error, whatever its last component. For an array of length 4 that
  passes the cast check for the target (float32 for Point32, float64 for Vector3 and Point): when the last
  component is close to 1, the message of the target class is built from the first three
  components; otherwise the error of the homogeneous component is raised.
\<close>

theorem numpy_to_vector_checks:
  "(shape a \<notin> {[3], [4]} \<longrightarrow> numpy_to_vector mt a = Inl (ValueError (BadShape (shape a)))) \<and>
   (shape a \<in> {[3], [4]} \<and>
    \<not> can_cast (min_scalar_type a) (if mt = Point32 then Float32 else Float64) \<longrightarrow>
      numpy_to_vector mt a
        = Inl (TypeError (NotCastable (min_scalar_type a)
                           (if mt = Point32 then Float32 else Float64)))) \<and>
   (shape a = [4] \<and> wf_array a \<and> mt \<in> {Vector3, Point, Point32} \<and>
    can_cast (min_scalar_type a) (if mt = Point32 then Float32 else Float64) \<longrightarrow>
      (isclose (data a ! 3) 1 \<longrightarrow>
         (\<exists>m. numpy_to_vector mt a = Inr m \<and> class_of m = mt \<and>
              getattr_float m ''x'' = Inr (data a ! 0) \<and>
              getattr_float m ''y'' = Inr (data a ! 1) \<and>
              getattr_float m ''z'' = Inr (data a ! 2))) \<and>
      (\<not> isclose (data a ! 3) 1 \<longrightarrow>
         numpy_to_vector mt a = Inl (ValueError (LastComponentNotOne (data a ! 3)))))"
proof (intro conjI impI)
  assume "shape a \<notin> {[3], [4]}"
  then show "numpy_to_vector mt a = Inl (ValueError (BadShape (shape a)))"
    by (simp add: numpy_to_vector_def)
next
  assume "shape a \<in> {[3], [4]} \<and>
    \<not> can_cast (min_scalar_type a) (if mt = Point32 then Float32 else Float64)"
  then show "numpy_to_vector mt a
        = Inl (TypeError (NotCastable (min_scalar_type a)
                           (if mt = Point32 then Float32 else Float64)))"
    by (auto simp add: numpy_to_vector_def assert_is_castable_def as_dtype_def ebind_def Let_def)
next
  assume h: "shape a = [4] \<and> wf_array a \<and> mt \<in> {Vector3, Point, Point32} \<and>
    can_cast (min_scalar_type a) (if mt = Point32 then Float32 else Float64)"
  assume c: "isclose (data a ! 3) 1"
  from h have len: "length (data a) = 4" by (simp add: wf_array_def)
  from h c have "numpy_to_vector mt a = construct mt [data a ! 0, data a ! 1, data a ! 2]"
    by (simp add: numpy_to_vector_def assert_is_castable_def as_dtype_def ebind_def
        take3 [OF len] Let_def)
  with h construct_xyz [of mt "data a ! 0" "data a ! 1" "data a ! 2"]
  show "\<exists>m. numpy_to_vector mt a = Inr m \<and> class_of m = mt \<and>
              getattr_float m ''x'' = Inr (data a ! 0) \<and>
              getattr_float m ''y'' = Inr (data a ! 1) \<and>
              getattr_float m ''z'' = Inr (data a ! 2)"
    by simp
next
  assume h: "shape a = [4] \<and> wf_array a \<and> mt \<in> {Vector3, Point, Point32} \<and>
    can_cast (min_scalar_type a) (if mt = Point32 then Float32 else Float64)"
  assume c: "\<not> isclose (data a ! 3) 1"
  from h c show "numpy_to_vector mt a = Inl (ValueError (LastComponentNotOne (data a ! 3)))"
    by (simp add: numpy_to_vector_def assert_is_castable_def as_dtype_def ebind_def Let_def)
qed


theorem numpy_to_vector_checks_witness:
  "numpy_to_vector Vector3 \<lparr>dtype_of = Float64, shape = [2], data = [1, 2]\<rparr>
     = Inl (ValueError (BadShape [2])) \<and>
   isclose (10000001 / 10000000) 1 \<and>
   (\<exists>m. numpy_to_vector Vector3
           \<lparr>dtype_of = Float64, shape = [4], data = [1, 2, 3, 10000001 / 10000000]\<rparr> = Inr m \<and>
        class_of m = Vector3 \<and> getattr_float m ''x'' = Inr 1 \<and>
        getattr_float m ''y'' = Inr 2 \<and> getattr_float m ''z'' = Inr 3) \<and>
   \<not> isclose (1 / 2) 1 \<and>
   numpy_to_vector Vector3 \<lparr>dtype_of = Float64, shape = [4], data = [1, 2, 3, 1 / 2]\<rparr>
     = Inl (ValueError (LastComponentNotOne (1 / 2))) \<and>
   numpy_to_vector Point32 \<lparr>dtype_of = Float64, shape = [4], data = [10 ^ 300, 0, 0, 1 / 2]\<rparr>
     = Inl (TypeError (NotCastable Float64 Float32))"
proof -
  have c: "isclose (10000001 / 10000000) 1" "\<not> isclose (1 / 2) 1"
    by (simp_all add: isclose_def)
  have 1: "numpy_to_vector Vector3 \<lparr>dtype_of = Float64, shape = [2], data = [1, 2]\<rparr> = Inl (ValueError (BadShape [2]))"
    using numpy_to_vector_checks [of "\<lparr>dtype_of = Float64, shape = [2], data = [1, 2]\<rparr>" Vector3] by simp
  have "\<exists>m. numpy_to_vector Vector3 \<lparr>dtype_of = Float64, shape = [4], data = [1, 2, 3, 10000001 / 10000000]\<rparr> = Inr m \<and>
        class_of m = Vector3 \<and> getattr_float m ''x'' = Inr (data \<lparr>dtype_of = Float64, shape = [4], data = [1, 2, 3, 10000001 / 10000000]\<rparr> ! 0) \<and>
        getattr_float m ''y'' = Inr (data \<lparr>dtype_of = Float64, shape = [4], data = [1, 2, 3, 10000001 / 10000000]\<rparr> ! 1) \<and>
        getattr_float m ''z'' = Inr (data \<lparr>dtype_of = Float64, shape = [4], data = [1, 2, 3, 10000001 / 10000000]\<rparr> ! 2)"
    using numpy_to_vector_checks [of "\<lparr>dtype_of = Float64, shape = [4], data = [1, 2, 3, 10000001 / 10000000]\<rparr>" Vector3] c(1)
    by (simp add: wf_array_def min_scalar_type_def can_cast_def)
  then have 2: "\<exists>m. numpy_to_vector Vector3 \<lparr>dtype_of = Float64, shape = [4], data = [1, 2, 3, 10000001 / 10000000]\<rparr> = Inr m \<and>
        class_of m = Vector3 \<and> getattr_float m ''x'' = Inr 1 \<and>
        getattr_float m ''y'' = Inr 2 \<and> getattr_float m ''z'' = Inr 3"
    by simp
  have 3: "numpy_to_vector Vector3 \<lparr>dtype_of = Float64, shape = [4], data = [1, 2, 3, 1 / 2]\<rparr> = Inl (ValueError (LastComponentNotOne (1 / 2)))"
    using numpy_to_vector_checks [of "\<lparr>dtype_of = Float64, shape = [4], data = [1, 2, 3, 1 / 2]\<rparr>" Vector3] c(2)
    by (simp add: wf_array_def min_scalar_type_def can_cast_def)
  have "shape \<lparr>dtype_of = Float64, shape = [4], data = [10 ^ 300, 0, 0, 1 / 2]\<rparr> \<in> {[3], [4]} \<and>
      \<not> can_cast (min_scalar_type \<lparr>dtype_of = Float64, shape = [4], data = [10 ^ 300, 0, 0, 1 / 2]\<rparr>) (if Point32 = Point32 then Float32 else Float64)"
    by (simp add: min_scalar_type_def can_cast_def)
  then have "numpy_to_vector Point32 \<lparr>dtype_of = Float64, shape = [4], data = [10 ^ 300, 0, 0, 1 / 2]\<rparr>
      = Inl (TypeError (NotCastable (min_scalar_type \<lparr>dtype_of = Float64, shape = [4], data = [10 ^ 300, 0, 0, 1 / 2]\<rparr>)
                         (if Point32 = Point32 then Float32 else Float64)))"
    using numpy_to_vector_checks [of "\<lparr>dtype_of = Float64, shape = [4], data = [10 ^ 300, 0, 0, 1 / 2]\<rparr>" Point32] by blast
  then have 4: "numpy_to_vector Point32 \<lparr>dtype_of = Float64, shape = [4], data = [10 ^ 300, 0, 0, 1 / 2]\<rparr> = Inl (TypeError (NotCastable Float64 Float32))"
    by (simp add: min_scalar_type_def)
  from c 1 2 3 4 show ?thesis
    by blast
qed

text \<open>
  The claim as stated fails: an array of length 4 whose last component is exactly 1, and
  which holds \<open>10\<^sup>3\<^sup>0\<^sup>0\<close>, is not encoded as a Point32; the cast check rejects it.
\<close>

theorem numpy_to_vector_counterexample:
  "shape \<lparr>dtype_of = Float64, shape = [4], data = [10 ^ 300, 0, 0, 1]\<rparr> = [4] \<and>
   isclose (data \<lparr>dtype_of = Float64, shape = [4], data = [10 ^ 300, 0, 0, 1]\<rparr> ! 3) 1 \<and>
   numpy_to_vector Point32 \<lparr>dtype_of = Float64, shape = [4], data = [10 ^ 300, 0, 0, 1]\<rparr>
     = Inl (TypeError (NotCastable Float64 Float32))"
  by (simp add: isclose_def numpy_to_vector_def assert_is_castable_def min_scalar_type_def
      can_cast_def as_dtype_def ebind_def)

subsection \<open>Covariance\<close>








subsection \<open>Inertia\<close>

lemma symmetric3:
  "\<forall>i<3. \<forall>j<3. at2 \<lparr>dtype_of = t, shape = [3, 3], data = [a, b, c, b, d, e, c, e, f]\<rparr> i j
                 = at2 \<lparr>dtype_of = t, shape = [3, 3], data = [a, b, c, b, d, e, c, e, f]\<rparr> j i"
proof (intro allI impI)
  fix i j :: nat
  assume "i < 3" and "j < 3"
  then have "(i = 0 \<or> i = 1 \<or> i = 2) \<and> (j = 0 \<or> j = 1 \<or> j = 2)"
    using lt3 by blast
  then show "at2 \<lparr>dtype_of = t, shape = [3, 3], data = [a, b, c, b, d, e, c, e, f]\<rparr> i j
               = at2 \<lparr>dtype_of = t, shape = [3, 3], data = [a, b, c, b, d, e, c, e, f]\<rparr> j i"
    by (auto simp add: at2_def)
qed

lemma inertia_to_numpy_Inertia:
  "inertia_to_numpy cast result_type (Inertia_msg m com ixx ixy ixz iyy iyz izz) hom =
     ebind (vector_to_numpy cast com hom) (\<lambda>c.
       Inr (m, c,
            \<lparr>dtype_of = result_type [ixx, ixy, ixz, ixy, iyy, iyz, ixz, iyz, izz],
             shape = [3, 3],
             data = map (cast (result_type [ixx, ixy, ixz, ixy, iyy, iyz, ixz, iyz, izz]))
                      [ixx, ixy, ixz, ixy, iyy, iyz, ixz, iyz, izz]\<rparr>))"
  by (simp add: inertia_to_numpy_def unstamp_Inertia getattr_Inertia ebind_Inr Let_def
      cong: ebind_cong)

lemma inertia_to_numpy_tensor:
  assumes "inertia_to_numpy cast result_type msg hom = Inr (mass, c, t)"
  shows "\<exists>dt a b c d e f. t = \<lparr>dtype_of = dt, shape = [3, 3],
                                  data = [a, b, c, b, d, e, c, e, f]\<rparr>"
  using assms unfolding inertia_to_numpy_def Let_def
  by (elim ebind_InrE) auto

lemma numpy_to_inertia_cases:
  "numpy_to_inertia cast Inertia mass mass_center t =
     (if \<not> can_cast (min_scalar_type mass) Float64
      then Inl (TypeError (NotCastable (min_scalar_type mass) Float64))
      else if \<not> can_cast (min_scalar_type t) Float64
      then Inl (TypeError (NotCastable (min_scalar_type t) Float64))
      else ebind (numpy_to_vector Vector3 mass_center) (\<lambda>com.
        if shape t \<noteq> [3, 3] then Inl (ValueError (BadShape (shape t)))
        else ebind (float_of cast mass) (\<lambda>m.
          Inr (Inertia_msg m com (at2 t 0 0) (at2 t 0 1) (at2 t 0 2)
                 (at2 t 1 1) (at2 t 2 1) (at2 t 2 2)))))"
  by (cases "numpy_to_vector Vector3 mass_center"; cases "float_of cast mass")
     (simp_all add: numpy_to_inertia_def assert_is_castable_def as_dtype_def Let_def
        ebind_Inr ebind_Inl)

lemma enc_requires:
  "numpy_to_inertia cast Inertia mass mass_center t = Inr out \<Longrightarrow>
      shape t = [3, 3] \<and> can_cast (min_scalar_type mass) Float64 \<and>
      can_cast (min_scalar_type t) Float64"
  unfolding numpy_to_inertia_cases
  by (cases "numpy_to_vector Vector3 mass_center")
     (simp_all add: ebind_Inr ebind_Inl split: if_splits)

lemma enc_shape:
  "can_cast (min_scalar_type mass) Float64 \<Longrightarrow> can_cast (min_scalar_type t) Float64 \<Longrightarrow>
    numpy_to_vector Vector3 mass_center = Inr com' \<Longrightarrow>
      (shape t \<noteq> [3, 3] \<longrightarrow>
         numpy_to_inertia cast Inertia mass mass_center t
           = Inl (ValueError (BadShape (shape t)))) \<and>
      (shape t = [3, 3] \<and> float_of cast mass = Inr v \<longrightarrow>
         numpy_to_inertia cast Inertia mass mass_center t
           = Inr (Inertia_msg v com' (at2 t 0 0) (at2 t 0 1) (at2 t 0 2)
                    (at2 t 1 1) (at2 t 2 1) (at2 t 2 2)))"
  by (simp add: numpy_to_inertia_cases ebind_Inr)

lemma enc_centre:
  "can_cast (min_scalar_type mass) Float64 \<Longrightarrow> can_cast (min_scalar_type t) Float64 \<Longrightarrow>
    numpy_to_vector Vector3 mass_center = Inl e \<Longrightarrow>
      numpy_to_inertia cast Inertia mass mass_center t = Inl e"
  by (simp add: numpy_to_inertia_cases ebind_Inl)

lemma enc_cast:
  "(\<not> can_cast (min_scalar_type mass) Float64 \<longrightarrow>
      numpy_to_inertia cast Inertia mass mass_center t
        = Inl (TypeError (NotCastable (min_scalar_type mass) Float64))) \<and>
   (can_cast (min_scalar_type mass) Float64 \<and> \<not> can_cast (min_scalar_type t) Float64 \<longrightarrow>
      numpy_to_inertia cast Inertia mass mass_center t
        = Inl (TypeError (NotCastable (min_scalar_type t) Float64)))"
  by (simp add: numpy_to_inertia_cases)

lemma dec_explicit:
  "vector_to_numpy cast com hom = Inr c \<Longrightarrow>
      inertia_to_numpy cast result_type (Inertia_msg m com ixx ixy ixz iyy iyz izz) hom
        = Inr (m, c,
               \<lparr>dtype_of = result_type [ixx, ixy, ixz, ixy, iyy, iyz, ixz, iyz, izz],
                shape = [3, 3],
                data = map (cast (result_type [ixx, ixy, ixz, ixy, iyy, iyz, ixz, iyz, izz]))
                         [ixx, ixy, ixz, ixy, iyy, iyz, ixz, iyz, izz]\<rparr>)"
  by (simp add: inertia_to_numpy_Inertia ebind_Inr)

text \<open>
  C8. Decoding returns the mass, the centre of mass and a tensor of shape \<open>(3,3)\<close> that is
  symmetric, built from the six moments by mirroring across the diagonal. Encoding
  requires the mass and the tensor to be castable to float64 (cast error otherwise) and
  the tensor to have shape \<open>(3,3)\<close>: with castable mass and tensor, an error of the
  encoding of the centre of mass is passed on, and otherwise a tensor of another shape
  raises the shape error. It then writes \<open>ixx, ixy, ixz, iyy, izz\<close> from the upper
  triangle of the tensor and \<open>iyz\<close> from \<open>tensor[2, 1]\<close>.
\<close>

theorem inertia_codec:
  "(vector_to_numpy cast com hom = Inr c \<longrightarrow>
      inertia_to_numpy cast result_type (Inertia_msg m com ixx ixy ixz iyy iyz izz) hom
        = Inr (m, c,
               \<lparr>dtype_of = result_type [ixx, ixy, ixz, ixy, iyy, iyz, ixz, iyz, izz],
                shape = [3, 3],
                data = map (cast (result_type [ixx, ixy, ixz, ixy, iyy, iyz, ixz, iyz, izz]))
                         [ixx, ixy, ixz, ixy, iyy, iyz, ixz, iyz, izz]\<rparr>)) \<and>
   (inertia_to_numpy cast result_type msg hom = Inr (mass', c', t') \<longrightarrow>
      shape t' = [3, 3] \<and> (\<forall>i<3. \<forall>j<3. at2 t' i j = at2 t' j i)) \<and>
   (\<not> can_cast (min_scalar_type mass) Float64 \<longrightarrow>
      numpy_to_inertia cast Inertia mass mass_center t
        = Inl (TypeError (NotCastable (min_scalar_type mass) Float64))) \<and>
   (can_cast (min_scalar_type mass) Float64 \<and> \<not> can_cast (min_scalar_type t) Float64 \<longrightarrow>
      numpy_to_inertia cast Inertia mass mass_center t
        = Inl (TypeError (NotCastable (min_scalar_type t) Float64))) \<and>
   (can_cast (min_scalar_type mass) Float64 \<and> can_cast (min_scalar_type t) Float64 \<and>
    numpy_to_vector Vector3 mass_center = Inl e \<longrightarrow>
      numpy_to_inertia cast Inertia mass mass_center t = Inl e) \<and>
   (can_cast (min_scalar_type mass) Float64 \<and> can_cast (min_scalar_type t) Float64 \<and>
    numpy_to_vector Vector3 mass_center = Inr com' \<longrightarrow>
      (shape t \<noteq> [3, 3] \<longrightarrow>
         numpy_to_inertia cast Inertia mass mass_center t
           = Inl (ValueError (BadShape (shape t)))) \<and>
      (shape t = [3, 3] \<and> float_of cast mass = Inr v \<longrightarrow>
         numpy_to_inertia cast Inertia mass mass_center t
           = Inr (Inertia_msg v com' (at2 t 0 0) (at2 t 0 1) (at2 t 0 2)
                    (at2 t 1 1) (at2 t 2 1) (at2 t 2 2)))) \<and>
   (numpy_to_inertia cast Inertia mass mass_center t = Inr out \<longrightarrow>
      shape t = [3, 3] \<and> can_cast (min_scalar_type mass) Float64 \<and>
      can_cast (min_scalar_type t) Float64)"
proof -
  have dec: "inertia_to_numpy cast result_type msg hom = Inr (mass', c', t') \<longrightarrow>
      shape t' = [3, 3] \<and> (\<forall>i<3. \<forall>j<3. at2 t' i j = at2 t' j i)"
  proof
    assume r: "inertia_to_numpy cast result_type msg hom = Inr (mass', c', t')"
    from inertia_to_numpy_tensor [OF r] obtain dt a b c d e f where
      "t' = \<lparr>dtype_of = dt, shape = [3, 3], data = [a, b, c, b, d, e, c, e, f]\<rparr>"
      by (elim exE)
    then show "shape t' = [3, 3] \<and> (\<forall>i<3. \<forall>j<3. at2 t' i j = at2 t' j i)"
      using symmetric3 [of dt a b c d e f] by simp
  qed
  show ?thesis
    using dec dec_explicit [of cast com hom c result_type m ixx ixy ixz iyy iyz izz]
      enc_cast [of mass cast mass_center t] enc_shape [of mass t mass_center com' cast v]
      enc_centre [of mass t mass_center e cast]
      enc_requires [of cast mass mass_center t out]
    by blast
qed

theorem inertia_codec_witness:
  "inertia_to_numpy (\<lambda>d v. v) (\<lambda>xs. Float64) (Inertia_msg 2 (Vector3_msg 0 0 0) 1 2 3 4 5 6) False = Inr (2, \<lparr>dtype_of = Float64, shape = [3], data = [0, 0, 0]\<rparr>, \<lparr>dtype_of = Float64, shape = [3, 3], data = [1, 2, 3, 2, 4, 5, 3, 5, 6]\<rparr>) \<and>
   at2 \<lparr>dtype_of = Float64, shape = [3, 3], data = [1, 2, 3, 2, 4, 5, 3, 5, 6]\<rparr> 1 2 = at2 \<lparr>dtype_of = Float64, shape = [3, 3], data = [1, 2, 3, 2, 4, 5, 3, 5, 6]\<rparr> 2 1 \<and>
   numpy_to_inertia (\<lambda>d v. v) Inertia \<lparr>dtype_of = Float64, shape = [], data = [2]\<rparr> \<lparr>dtype_of = Float64, shape = [3], data = [0, 0, 0]\<rparr> \<lparr>dtype_of = Float64, shape = [3, 3], data = [1, 2, 3, 20, 4, 5, 30, 50, 6]\<rparr>
     = Inr (Inertia_msg 2 (Vector3_msg 0 0 0) 1 2 3 4 50 6) \<and>
   numpy_to_inertia (\<lambda>d v. v) Inertia \<lparr>dtype_of = Float64, shape = [], data = [2]\<rparr> \<lparr>dtype_of = Float64, shape = [3], data = [0, 0, 0]\<rparr> \<lparr>dtype_of = Float64, shape = [2, 2], data = [1, 0, 0, 1]\<rparr> = Inl (ValueError (BadShape [2, 2]))"
proof -
  have d: "vector_to_numpy (\<lambda>d v. v) (Vector3_msg 0 0 0) False = Inr \<lparr>dtype_of = Float64, shape = [3], data = [0, 0, 0]\<rparr>"
    by (simp add: vector_to_numpy_def unstamp_def class_of_def stamped_type_to_attr_def
        getattr_float_def np_array_def ebind_def)
  have e: "numpy_to_vector Vector3 \<lparr>dtype_of = Float64, shape = [3], data = [0, 0, 0]\<rparr> = Inr (Vector3_msg 0 0 0)"
    by (simp add: numpy_to_vector_def assert_is_castable_def as_dtype_def min_scalar_type_def
        can_cast_def construct_def ebind_def)
  have f: "float_of (\<lambda>d v. v) \<lparr>dtype_of = Float64, shape = [], data = [2]\<rparr> = Inr 2"
    by (simp add: float_of_def)
  have g: "can_cast (min_scalar_type \<lparr>dtype_of = Float64, shape = [], data = [2]\<rparr>) Float64"
    by (simp add: min_scalar_type_def min_float_def can_cast_def)
  have h: "can_cast (min_scalar_type \<lparr>dtype_of = Float64, shape = [3, 3], data = [1, 2, 3, 20, 4, 5, 30, 50, 6]\<rparr>) Float64"
          "can_cast (min_scalar_type \<lparr>dtype_of = Float64, shape = [2, 2], data = [1, 0, 0, 1]\<rparr>) Float64"
    by (simp_all add: min_scalar_type_def can_cast_def)
  have a: "at2 \<lparr>dtype_of = Float64, shape = [3, 3], data = [1, 2, 3, 20, 4, 5, 30, 50, 6]\<rparr> 0 0 = 1" "at2 \<lparr>dtype_of = Float64, shape = [3, 3], data = [1, 2, 3, 20, 4, 5, 30, 50, 6]\<rparr> 0 1 = 2" "at2 \<lparr>dtype_of = Float64, shape = [3, 3], data = [1, 2, 3, 20, 4, 5, 30, 50, 6]\<rparr> 0 2 = 3"
          "at2 \<lparr>dtype_of = Float64, shape = [3, 3], data = [1, 2, 3, 20, 4, 5, 30, 50, 6]\<rparr> 1 1 = 4" "at2 \<lparr>dtype_of = Float64, shape = [3, 3], data = [1, 2, 3, 20, 4, 5, 30, 50, 6]\<rparr> 2 1 = 50" "at2 \<lparr>dtype_of = Float64, shape = [3, 3], data = [1, 2, 3, 20, 4, 5, 30, 50, 6]\<rparr> 2 2 = 6"
    by (simp_all add: at2_def)
  have m: "\<lparr>dtype_of = (\<lambda>xs. Float64) [1, 2, 3, 2, 4, 5, 3, 5, 6], shape = [3, 3], data = map ((\<lambda>d v. v) ((\<lambda>xs. Float64) [1, 2, 3, 2, 4, 5, 3, 5, 6])) [1, 2, 3, 2, 4, 5, 3, 5, 6]\<rparr> = \<lparr>dtype_of = Float64, shape = [3, 3], data = [1, 2, 3, 2, 4, 5, 3, 5, 6]\<rparr>"
    by simp
  note ta = inertia_codec [of "\<lambda>d v. v" "Vector3_msg 0 0 0" False "\<lparr>dtype_of = Float64, shape = [3], data = [0, 0, 0]\<rparr>" "\<lambda>xs. Float64"
      2 1 2 3 4 5 6 "Inertia_msg 2 (Vector3_msg 0 0 0) 1 2 3 4 5 6" 2 "\<lparr>dtype_of = Float64, shape = [3], data = [0, 0, 0]\<rparr>" "\<lparr>dtype_of = Float64, shape = [3, 3], data = [1, 2, 3, 2, 4, 5, 3, 5, 6]\<rparr>" "\<lparr>dtype_of = Float64, shape = [], data = [2]\<rparr>" "\<lparr>dtype_of = Float64, shape = [3], data = [0, 0, 0]\<rparr>" "\<lparr>dtype_of = Float64, shape = [3, 3], data = [1, 2, 3, 20, 4, 5, 30, 50, 6]\<rparr>" _ "Vector3_msg 0 0 0" 2]
  note tb = inertia_codec [of "\<lambda>d v. v" "Vector3_msg 0 0 0" False "\<lparr>dtype_of = Float64, shape = [3], data = [0, 0, 0]\<rparr>" "\<lambda>xs. Float64"
      2 1 2 3 4 5 6 "Inertia_msg 2 (Vector3_msg 0 0 0) 1 2 3 4 5 6" 2 "\<lparr>dtype_of = Float64, shape = [3], data = [0, 0, 0]\<rparr>" "\<lparr>dtype_of = Float64, shape = [3, 3], data = [1, 2, 3, 2, 4, 5, 3, 5, 6]\<rparr>" "\<lparr>dtype_of = Float64, shape = [], data = [2]\<rparr>" "\<lparr>dtype_of = Float64, shape = [3], data = [0, 0, 0]\<rparr>" "\<lparr>dtype_of = Float64, shape = [2, 2], data = [1, 0, 0, 1]\<rparr>" _ "Vector3_msg 0 0 0" 2]
  have "inertia_to_numpy (\<lambda>d v. v) (\<lambda>xs. Float64) (Inertia_msg 2 (Vector3_msg 0 0 0) 1 2 3 4 5 6) False = Inr (2, \<lparr>dtype_of = Float64, shape = [3], data = [0, 0, 0]\<rparr>, \<lparr>dtype_of = (\<lambda>xs. Float64) [1, 2, 3, 2, 4, 5, 3, 5, 6], shape = [3, 3], data = map ((\<lambda>d v. v) ((\<lambda>xs. Float64) [1, 2, 3, 2, 4, 5, 3, 5, 6])) [1, 2, 3, 2, 4, 5, 3, 5, 6]\<rparr>)"
    using ta d by blast
  then have 1: "inertia_to_numpy (\<lambda>d v. v) (\<lambda>xs. Float64) (Inertia_msg 2 (Vector3_msg 0 0 0) 1 2 3 4 5 6) False = Inr (2, \<lparr>dtype_of = Float64, shape = [3], data = [0, 0, 0]\<rparr>, \<lparr>dtype_of = Float64, shape = [3, 3], data = [1, 2, 3, 2, 4, 5, 3, 5, 6]\<rparr>)"
    by (simp only: m)
  have "\<forall>i<3. \<forall>j<3. at2 \<lparr>dtype_of = Float64, shape = [3, 3], data = [1, 2, 3, 2, 4, 5, 3, 5, 6]\<rparr> i j = at2 \<lparr>dtype_of = Float64, shape = [3, 3], data = [1, 2, 3, 2, 4, 5, 3, 5, 6]\<rparr> j i"
    using ta 1 by blast
  then have 2: "at2 \<lparr>dtype_of = Float64, shape = [3, 3], data = [1, 2, 3, 2, 4, 5, 3, 5, 6]\<rparr> 1 2 = at2 \<lparr>dtype_of = Float64, shape = [3, 3], data = [1, 2, 3, 2, 4, 5, 3, 5, 6]\<rparr> 2 1"
    by simp
  have "shape \<lparr>dtype_of = Float64, shape = [3, 3], data = [1, 2, 3, 20, 4, 5, 30, 50, 6]\<rparr> = [3, 3]"
    by simp
  then have "numpy_to_inertia (\<lambda>d v. v) Inertia \<lparr>dtype_of = Float64, shape = [], data = [2]\<rparr> \<lparr>dtype_of = Float64, shape = [3], data = [0, 0, 0]\<rparr> \<lparr>dtype_of = Float64, shape = [3, 3], data = [1, 2, 3, 20, 4, 5, 30, 50, 6]\<rparr>
     = Inr (Inertia_msg 2 (Vector3_msg 0 0 0) (at2 \<lparr>dtype_of = Float64, shape = [3, 3], data = [1, 2, 3, 20, 4, 5, 30, 50, 6]\<rparr> 0 0) (at2 \<lparr>dtype_of = Float64, shape = [3, 3], data = [1, 2, 3, 20, 4, 5, 30, 50, 6]\<rparr> 0 1) (at2 \<lparr>dtype_of = Float64, shape = [3, 3], data = [1, 2, 3, 20, 4, 5, 30, 50, 6]\<rparr> 0 2)
              (at2 \<lparr>dtype_of = Float64, shape = [3, 3], data = [1, 2, 3, 20, 4, 5, 30, 50, 6]\<rparr> 1 1) (at2 \<lparr>dtype_of = Float64, shape = [3, 3], data = [1, 2, 3, 20, 4, 5, 30, 50, 6]\<rparr> 2 1) (at2 \<lparr>dtype_of = Float64, shape = [3, 3], data = [1, 2, 3, 20, 4, 5, 30, 50, 6]\<rparr> 2 2))"
    using ta e f g h(1) by blast
  then have 3: "numpy_to_inertia (\<lambda>d v. v) Inertia \<lparr>dtype_of = Float64, shape = [], data = [2]\<rparr> \<lparr>dtype_of = Float64, shape = [3], data = [0, 0, 0]\<rparr> \<lparr>dtype_of = Float64, shape = [3, 3], data = [1, 2, 3, 20, 4, 5, 30, 50, 6]\<rparr>
     = Inr (Inertia_msg 2 (Vector3_msg 0 0 0) 1 2 3 4 50 6)"
    by (simp only: a)
  have "shape \<lparr>dtype_of = Float64, shape = [2, 2], data = [1, 0, 0, 1]\<rparr> \<noteq> [3, 3]"
    by simp
  then have "numpy_to_inertia (\<lambda>d v. v) Inertia \<lparr>dtype_of = Float64, shape = [], data = [2]\<rparr> \<lparr>dtype_of = Float64, shape = [3], data = [0, 0, 0]\<rparr> \<lparr>dtype_of = Float64, shape = [2, 2], data = [1, 0, 0, 1]\<rparr>
               = Inl (ValueError (BadShape (shape \<lparr>dtype_of = Float64, shape = [2, 2], data = [1, 0, 0, 1]\<rparr>)))"
    using tb e g h(2) by blast
  then have 4: "numpy_to_inertia (\<lambda>d v. v) Inertia \<lparr>dtype_of = Float64, shape = [], data = [2]\<rparr> \<lparr>dtype_of = Float64, shape = [3], data = [0, 0, 0]\<rparr> \<lparr>dtype_of = Float64, shape = [2, 2], data = [1, 0, 0, 1]\<rparr>
                  = Inl (ValueError (BadShape [2, 2]))"
    by simp
  from 1 2 3 4 show ?thesis
    by blast
qed

subsection \<open>Polygons\<close>

lemma upt3: "[0..<3] = [0, 1, 2]"
  by code_simp

lemma upt4: "[0..<4] = [0, 1, 2, 3]"
  by code_simp

lemma emap_map_Inr:
  "(\<And>x. x \<in> set xs \<Longrightarrow> f (h x) = Inr (g x)) \<Longrightarrow> emap f (map h xs) = Inr (map g xs)"
  by (induction xs) (simp_all add: ebind_Inr)

lemma emap_Inl_at:
  "i < length xs \<Longrightarrow> f (xs ! i) = Inl e \<Longrightarrow> (\<And>k. k < i \<Longrightarrow> \<exists>v. f (xs ! k) = Inr v) \<Longrightarrow>
   emap f xs = Inl e"
proof (induction xs arbitrary: i)
  case Nil
  then show ?case by simp
next
  case (Cons x xs)
  show ?case
  proof (cases i)
    case 0
    with Cons.prems(2) show ?thesis by (simp add: ebind_Inl)
  next
    case (Suc i')
    with Cons.prems(3) [of 0] obtain v where v: "f x = Inr v" by auto
    have "emap f xs = Inl e"
    proof (rule Cons.IH [of i'])
      from Cons.prems(1) Suc show "i' < length xs" by simp
      from Cons.prems(2) Suc show "f (xs ! i') = Inl e" by simp
      fix k assume "k < i'"
      with Cons.prems(3) [of "Suc k"] Suc show "\<exists>v. f (xs ! k) = Inr v" by simp
    qed
    with v show ?thesis by (simp add: ebind_Inr ebind_Inl)
  qed
qed

lemma hsplit_squeeze_columns:
  "0 < n \<Longrightarrow> hd (shape points) \<in> {3, 4} \<Longrightarrow>
   hsplit_squeeze points n = Inr (map (column points) [0 ..< n])"
  by (auto simp add: hsplit_squeeze_def column_def)

lemma numpy_to_vector_column3:
  assumes "can_cast (dtype_of points) Float32" and "hd (shape points) = 3"
  shows "numpy_to_vector Point32 (column points j)
           = Inr (Point32_msg (at2 points 0 j) (at2 points 1 j) (at2 points 2 j))"
  using assms
  by (simp add: numpy_to_vector_def column_def assert_is_castable_def as_dtype_def
      min_scalar_type_def ebind_Inr construct_def upt3)

lemma numpy_to_vector_column4:
  assumes "can_cast (dtype_of points) Float32" and "hd (shape points) = 4"
  shows "numpy_to_vector Point32 (column points j)
           = (if isclose (at2 points 3 j) 1
              then Inr (Point32_msg (at2 points 0 j) (at2 points 1 j) (at2 points 2 j))
              else Inl (ValueError (LastComponentNotOne (at2 points 3 j))))"
  using assms
  by (simp add: numpy_to_vector_def column_def assert_is_castable_def as_dtype_def
      min_scalar_type_def ebind_Inr construct_def upt4)


lemma numpy_to_polygon_3:
  assumes "can_cast (dtype_of points) Float32" and "shape points = [3, n]" and "0 < n"
  shows "numpy_to_polygon Polygon points
           = Inr (Polygon_msg (map (\<lambda>j. Point32_msg (at2 points 0 j) (at2 points 1 j)
                                         (at2 points 2 j)) [0 ..< n]))"
proof -
  have c: "emap (numpy_to_vector Point32) (map (column points) [0 ..< n])
             = Inr (map (\<lambda>j. Point32_msg (at2 points 0 j) (at2 points 1 j) (at2 points 2 j))
                      [0 ..< n])"
    using assms by (intro emap_map_Inr) (simp add: numpy_to_vector_column3)
  show ?thesis
    using assms c
    by (simp add: numpy_to_polygon_def assert_is_castable_def as_dtype_def min_scalar_type_def
        hsplit_squeeze_columns ebind_Inr)
qed

lemma numpy_to_polygon_4:
  assumes "can_cast (dtype_of points) Float32" and "shape points = [4, n]" and "0 < n"
    and "\<forall>j<n. isclose (at2 points 3 j) 1"
  shows "numpy_to_polygon Polygon points
           = Inr (Polygon_msg (map (\<lambda>j. Point32_msg (at2 points 0 j) (at2 points 1 j)
                                         (at2 points 2 j)) [0 ..< n]))"
proof -
  have c: "emap (numpy_to_vector Point32) (map (column points) [0 ..< n])
             = Inr (map (\<lambda>j. Point32_msg (at2 points 0 j) (at2 points 1 j) (at2 points 2 j))
                      [0 ..< n])"
    using assms by (intro emap_map_Inr) (simp add: numpy_to_vector_column4)
  show ?thesis
    using assms c
    by (simp add: numpy_to_polygon_def assert_is_castable_def as_dtype_def min_scalar_type_def
        hsplit_squeeze_columns ebind_Inr)
qed

lemma numpy_to_polygon_bad_row:
  assumes "can_cast (dtype_of points) Float32" and "shape points = [4, n]" and "j < n"
    and "\<not> isclose (at2 points 3 j) 1" and "\<forall>k<j. isclose (at2 points 3 k) 1"
  shows "numpy_to_polygon message_type points
           = Inl (ValueError (LastComponentNotOne (at2 points 3 j)))"
proof -
  have c: "emap (numpy_to_vector Point32) (map (column points) [0 ..< n])
             = Inl (ValueError (LastComponentNotOne (at2 points 3 j)))"
  proof (rule emap_Inl_at [of j])
    from assms(3) show "j < length (map (column points) [0 ..< n])" by simp
    from assms show "numpy_to_vector Point32 (map (column points) [0 ..< n] ! j)
                       = Inl (ValueError (LastComponentNotOne (at2 points 3 j)))"
      by (simp add: numpy_to_vector_column4)
    fix k assume "k < j"
    with assms show "\<exists>v. numpy_to_vector Point32 (map (column points) [0 ..< n] ! k) = Inr v"
      by (simp add: numpy_to_vector_column4)
  qed
  from assms(3) have "0 < n" by simp
  with assms c show ?thesis
    by (simp add: numpy_to_polygon_def assert_is_castable_def as_dtype_def min_scalar_type_def
        hsplit_squeeze_columns ebind_Inr ebind_Inl)
qed

lemma vector_to_numpy_Point32:
  "vector_to_numpy cast (Point32_msg x y z) False
     = Inr \<lparr>dtype_of = Float32, shape = [3], data = [cast Float32 x, cast Float32 y, cast Float32 z]\<rparr>"
  by (simp add: vector_to_numpy_def unstamp_def class_of_def stamped_type_to_attr_def
      getattr_float_def np_array_def ebind_def)

lemma polygon_to_numpy_points:
  assumes "0 < n"
  shows "polygon_to_numpy cast
           (Polygon_msg (map (\<lambda>j. Point32_msg (g 0 j) (g 1 j) (g 2 j)) [0 ..< n])) False
         = Inr \<lparr>dtype_of = Float32, shape = [3, n],
                 data = map (\<lambda>j. cast Float32 (g 0 j)) [0 ..< n] @ map (\<lambda>j. cast Float32 (g 1 j)) [0 ..< n]
                        @ map (\<lambda>j. cast Float32 (g 2 j)) [0 ..< n]\<rparr>"
proof -
  let ?row = "\<lambda>j. \<lparr>dtype_of = Float32, shape = [3],
                     data = [cast Float32 (g 0 j), cast Float32 (g 1 j), cast Float32 (g 2 j)]\<rparr>"
  have e: "emap (\<lambda>p. vector_to_numpy cast p False)
             (map (\<lambda>j. Point32_msg (g 0 j) (g 1 j) (g 2 j)) [0 ..< n])
           = Inr (map ?row [0 ..< n])"
    by (intro emap_map_Inr) (simp add: vector_to_numpy_Point32)
  from assms have n: "[0 ..< n] = 0 # [1 ..< n]"
    by (simp add: upt_conv_Cons)
  have s: "stack_T cast (map ?row [0 ..< n])
           = \<lparr>dtype_of = Float32, shape = [3, n],
               data = map (\<lambda>j. cast Float32 (g 0 j)) [0 ..< n] @ map (\<lambda>j. cast Float32 (g 1 j)) [0 ..< n]
                      @ map (\<lambda>j. cast Float32 (g 2 j)) [0 ..< n]\<rparr>"
  proof -
    have "stack_T cast (map ?row (0 # [1 ..< n]))
           = \<lparr>dtype_of = Float32, shape = [3, length (0 # [1 ..< n])],
               data = map (\<lambda>j. cast Float32 (g 0 j)) (0 # [1 ..< n])
                      @ map (\<lambda>j. cast Float32 (g 1 j)) (0 # [1 ..< n])
                      @ map (\<lambda>j. cast Float32 (g 2 j)) (0 # [1 ..< n])\<rparr>"
      by (simp add: stack_T_def to_float32_def upt3 comp_def)
    then show ?thesis
      by (simp only: n [symmetric] length_upt) simp
  qed
  show ?thesis
    by (simp add: polygon_to_numpy_def unstamp_def class_of_def stamped_type_to_attr_def
        getattr_points_def ebind_Inr e s)
qed

lemma at2_three_rows:
  assumes "i < 3" and "j < n" and "length r0 = n" and "length r1 = n" and "length r2 = n"
  shows "at2 \<lparr>dtype_of = d, shape = [3, n], data = r0 @ r1 @ r2\<rparr> i j = [r0, r1, r2] ! i ! j"
proof -
  from assms(1) have "i = 0 \<or> i = 1 \<or> i = 2" by arith
  with assms(2-) show ?thesis
    by (auto simp add: at2_def nth_append)
qed


text \<open>
  C7, as the code has it. Encoding first checks that the array is castable to float32
  (cast error otherwise); a castable array that is not two-dimensional with 3 or 4 rows
  raises the shape error. A castable array of 3 rows, or of 4 rows whose last row is close
  to 1 everywhere, with \<open>n > 0\<close> columns gives a polygon of exactly \<open>n\<close> points, point
  \<open>j\<close> built from the first three components of column \<open>j\<close>. Decoding that polygon
  gives a float32 array of shape \<open>(3, n)\<close> (the shape of an input of 3 rows) whose element
  \<open>[i, j]\<close> is the input's element converted to float32. A castable array of 4 rows
  raises the error of the homogeneous component at the first column whose last component
  is not close to 1.
\<close>

theorem polygon_codec:
  "(\<not> can_cast (min_scalar_type points) Float32 \<longrightarrow>
      numpy_to_polygon message_type points
        = Inl (TypeError (NotCastable (min_scalar_type points) Float32))) \<and>
   (can_cast (min_scalar_type points) Float32 \<and>
    (length (shape points) \<noteq> 2 \<or> hd (shape points) \<notin> {3, 4}) \<longrightarrow>
      numpy_to_polygon message_type points = Inl (ValueError (BadShape (shape points)))) \<and>
   (can_cast (min_scalar_type points) Float32 \<and> 0 < n \<and>
    (shape points = [3, n] \<or>
     shape points = [4, n] \<and> (\<forall>j<n. isclose (at2 points 3 j) 1)) \<longrightarrow>
      (\<exists>ps out.
         numpy_to_polygon Polygon points = Inr (Polygon_msg ps) \<and> length ps = n \<and>
         (\<forall>j<n. ps ! j = Point32_msg (at2 points 0 j) (at2 points 1 j) (at2 points 2 j)) \<and>
         polygon_to_numpy cast (Polygon_msg ps) False = Inr out \<and>
         dtype_of out = Float32 \<and> shape out = [3, n] \<and>
         (\<forall>i<3. \<forall>j<n. at2 out i j = cast Float32 (at2 points i j)))) \<and>
   (can_cast (min_scalar_type points) Float32 \<and> shape points = [4, n] \<and> col < n \<and>
    \<not> isclose (at2 points 3 col) 1 \<and> (\<forall>k<col. isclose (at2 points 3 k) 1) \<longrightarrow>
      numpy_to_polygon message_type points
        = Inl (ValueError (LastComponentNotOne (at2 points 3 col))))"
proof (intro conjI impI)
  assume "\<not> can_cast (min_scalar_type points) Float32"
  then show "numpy_to_polygon message_type points
               = Inl (TypeError (NotCastable (min_scalar_type points) Float32))"
    by (simp add: numpy_to_polygon_def assert_is_castable_def as_dtype_def ebind_Inl)
next
  assume "can_cast (min_scalar_type points) Float32 \<and>
    (length (shape points) \<noteq> 2 \<or> hd (shape points) \<notin> {3, 4})"
  then show "numpy_to_polygon message_type points = Inl (ValueError (BadShape (shape points)))"
    by (auto simp add: numpy_to_polygon_def assert_is_castable_def as_dtype_def ebind_Inr)
next
  assume h: "can_cast (min_scalar_type points) Float32 \<and> 0 < n \<and>
    (shape points = [3, n] \<or> shape points = [4, n] \<and> (\<forall>j<n. isclose (at2 points 3 j) 1))"
  let ?ps = "map (\<lambda>j. Point32_msg (at2 points 0 j) (at2 points 1 j) (at2 points 2 j)) [0 ..< n]"
  let ?out = "\<lparr>dtype_of = Float32, shape = [3, n],
                data = map (\<lambda>j. cast Float32 (at2 points 0 j)) [0 ..< n]
                       @ map (\<lambda>j. cast Float32 (at2 points 1 j)) [0 ..< n]
                       @ map (\<lambda>j. cast Float32 (at2 points 2 j)) [0 ..< n]\<rparr>"
  from h have c: "can_cast (dtype_of points) Float32"
    by (auto simp add: min_scalar_type_def)
  from h c have 1: "numpy_to_polygon Polygon points = Inr (Polygon_msg ?ps)"
    using numpy_to_polygon_3 [of points n] numpy_to_polygon_4 [of points n] by blast
  from h have 2: "polygon_to_numpy cast (Polygon_msg ?ps) False = Inr ?out"
    using polygon_to_numpy_points [of n cast "at2 points"] by blast
  have 3: "\<forall>i<3. \<forall>j<n. at2 ?out i j = cast Float32 (at2 points i j)"
  proof (intro allI impI)
    fix i j :: nat
    assume i: "i < 3" and j: "j < n"
    then have "at2 ?out i j = [map (\<lambda>j. cast Float32 (at2 points 0 j)) [0 ..< n],
                               map (\<lambda>j. cast Float32 (at2 points 1 j)) [0 ..< n],
                               map (\<lambda>j. cast Float32 (at2 points 2 j)) [0 ..< n]] ! i ! j"
      by (intro at2_three_rows) simp_all
    also from i have "i = 0 \<or> i = 1 \<or> i = 2" by arith
    with j have "[map (\<lambda>j. cast Float32 (at2 points 0 j)) [0 ..< n],
                  map (\<lambda>j. cast Float32 (at2 points 1 j)) [0 ..< n],
                  map (\<lambda>j. cast Float32 (at2 points 2 j)) [0 ..< n]] ! i ! j = cast Float32 (at2 points i j)"
      by auto
    finally show "at2 ?out i j = cast Float32 (at2 points i j)" .
  qed
  have 4: "length ?ps = n \<and>
    (\<forall>j<n. ?ps ! j = Point32_msg (at2 points 0 j) (at2 points 1 j) (at2 points 2 j))"
    by simp
  have 5: "dtype_of ?out = Float32 \<and> shape ?out = [3, n]"
    by simp
  from 1 2 3 4 5
  show "\<exists>ps out.
         numpy_to_polygon Polygon points = Inr (Polygon_msg ps) \<and> length ps = n \<and>
         (\<forall>j<n. ps ! j = Point32_msg (at2 points 0 j) (at2 points 1 j) (at2 points 2 j)) \<and>
         polygon_to_numpy cast (Polygon_msg ps) False = Inr out \<and>
         dtype_of out = Float32 \<and> shape out = [3, n] \<and>
         (\<forall>i<3. \<forall>j<n. at2 out i j = cast Float32 (at2 points i j))"
    by blast
next
  assume h: "can_cast (min_scalar_type points) Float32 \<and> shape points = [4, n] \<and> col < n \<and>
    \<not> isclose (at2 points 3 col) 1 \<and> (\<forall>k<col. isclose (at2 points 3 k) 1)"
  then have "can_cast (dtype_of points) Float32"
    by (auto simp add: min_scalar_type_def)
  with h show "numpy_to_polygon message_type points
        = Inl (ValueError (LastComponentNotOne (at2 points 3 col)))"
    using numpy_to_polygon_bad_row [of points n col message_type] by blast
qed

theorem polygon_codec_witness:
  "(\<exists>ps out.
      numpy_to_polygon Polygon \<lparr>dtype_of = Float32, shape = [3, 2], data = [1, 2, 3, 4, 5, 6]\<rparr> = Inr (Polygon_msg ps) \<and> length ps = 2 \<and>
      ps ! 0 = Point32_msg 1 3 5 \<and> ps ! 1 = Point32_msg 2 4 6 \<and>
      polygon_to_numpy (\<lambda>d v. v) (Polygon_msg ps) False = Inr out \<and>
      shape out = shape \<lparr>dtype_of = Float32, shape = [3, 2], data = [1, 2, 3, 4, 5, 6]\<rparr> \<and> at2 out 1 0 = at2 \<lparr>dtype_of = Float32, shape = [3, 2], data = [1, 2, 3, 4, 5, 6]\<rparr> 1 0) \<and>
   numpy_to_polygon Polygon \<lparr>dtype_of = Float32, shape = [2, 2], data = [1, 2, 3, 4]\<rparr> = Inl (ValueError (BadShape [2, 2])) \<and>
   numpy_to_polygon Polygon \<lparr>dtype_of = Float64, shape = [3, 2], data = [10 ^ 300, 2, 3, 4, 5, 6]\<rparr> = Inl (TypeError (NotCastable Float64 Float32)) \<and>
   numpy_to_polygon Polygon \<lparr>dtype_of = Float32, shape = [4, 2], data = [1, 2, 3, 4, 5, 6, 1, 1 / 2]\<rparr> = Inl (ValueError (LastComponentNotOne (1 / 2)))"
proof -
  note t = polygon_codec [of "\<lparr>dtype_of = Float32, shape = [3, 2], data = [1, 2, 3, 4, 5, 6]\<rparr>" Polygon 2 "\<lambda>d v. v"]
  have c: "can_cast (min_scalar_type \<lparr>dtype_of = Float32, shape = [3, 2], data = [1, 2, 3, 4, 5, 6]\<rparr>) Float32" "can_cast (min_scalar_type \<lparr>dtype_of = Float32, shape = [2, 2], data = [1, 2, 3, 4]\<rparr>) Float32"
          "\<not> can_cast (min_scalar_type \<lparr>dtype_of = Float64, shape = [3, 2], data = [10 ^ 300, 2, 3, 4, 5, 6]\<rparr>) Float32" "can_cast (min_scalar_type \<lparr>dtype_of = Float32, shape = [4, 2], data = [1, 2, 3, 4, 5, 6, 1, 1 / 2]\<rparr>) Float32"
    by (simp_all add: min_scalar_type_def can_cast_def)
  have s: "shape \<lparr>dtype_of = Float32, shape = [3, 2], data = [1, 2, 3, 4, 5, 6]\<rparr> = [3, 2]" "(0::nat) < 2"
    by simp_all
  from t c(1) s obtain ps out where r:
      "numpy_to_polygon Polygon \<lparr>dtype_of = Float32, shape = [3, 2], data = [1, 2, 3, 4, 5, 6]\<rparr> = Inr (Polygon_msg ps)" "length ps = 2"
      "\<forall>j<2. ps ! j = Point32_msg (at2 \<lparr>dtype_of = Float32, shape = [3, 2], data = [1, 2, 3, 4, 5, 6]\<rparr> 0 j) (at2 \<lparr>dtype_of = Float32, shape = [3, 2], data = [1, 2, 3, 4, 5, 6]\<rparr> 1 j) (at2 \<lparr>dtype_of = Float32, shape = [3, 2], data = [1, 2, 3, 4, 5, 6]\<rparr> 2 j)"
      "polygon_to_numpy (\<lambda>d v. v) (Polygon_msg ps) False = Inr out"
      "shape out = [3, 2]" "\<forall>i<3. \<forall>j<2. at2 out i j = at2 \<lparr>dtype_of = Float32, shape = [3, 2], data = [1, 2, 3, 4, 5, 6]\<rparr> i j"
    by blast
  from r(3) have p: "ps ! 0 = Point32_msg 1 3 5" "ps ! 1 = Point32_msg 2 4 6"
    by (simp_all add: at2_def)
  from r(6) have q: "at2 out 1 0 = at2 \<lparr>dtype_of = Float32, shape = [3, 2], data = [1, 2, 3, 4, 5, 6]\<rparr> 1 0"
    by simp
  have b: "numpy_to_polygon Polygon \<lparr>dtype_of = Float32, shape = [2, 2], data = [1, 2, 3, 4]\<rparr> = Inl (ValueError (BadShape [2, 2]))"
    using polygon_codec [of "\<lparr>dtype_of = Float32, shape = [2, 2], data = [1, 2, 3, 4]\<rparr>" Polygon 2 "\<lambda>d v. v"] c(2) by simp
  have "numpy_to_polygon Polygon \<lparr>dtype_of = Float64, shape = [3, 2], data = [10 ^ 300, 2, 3, 4, 5, 6]\<rparr>
          = Inl (TypeError (NotCastable (min_scalar_type \<lparr>dtype_of = Float64, shape = [3, 2], data = [10 ^ 300, 2, 3, 4, 5, 6]\<rparr>) Float32))"
    using polygon_codec [of "\<lparr>dtype_of = Float64, shape = [3, 2], data = [10 ^ 300, 2, 3, 4, 5, 6]\<rparr>" Polygon 2 "\<lambda>d v. v"] c(3) by blast
  then have d: "numpy_to_polygon Polygon \<lparr>dtype_of = Float64, shape = [3, 2], data = [10 ^ 300, 2, 3, 4, 5, 6]\<rparr> = Inl (TypeError (NotCastable Float64 Float32))"
    by (simp add: min_scalar_type_def)
  have l: "at2 \<lparr>dtype_of = Float32, shape = [4, 2], data = [1, 2, 3, 4, 5, 6, 1, 1 / 2]\<rparr> 3 1 = 1 / 2" "at2 \<lparr>dtype_of = Float32, shape = [4, 2], data = [1, 2, 3, 4, 5, 6, 1, 1 / 2]\<rparr> 3 0 = 1"
    by (simp_all add: at2_def)
  have i: "\<not> isclose (1 / 2) 1" "isclose 1 1"
    by (simp_all add: isclose_def)
  have "shape \<lparr>dtype_of = Float32, shape = [4, 2], data = [1, 2, 3, 4, 5, 6, 1, 1 / 2]\<rparr> = [4, 2] \<and> (1::nat) < 2 \<and> \<not> isclose (at2 \<lparr>dtype_of = Float32, shape = [4, 2], data = [1, 2, 3, 4, 5, 6, 1, 1 / 2]\<rparr> 3 1) 1 \<and>
        (\<forall>k<1. isclose (at2 \<lparr>dtype_of = Float32, shape = [4, 2], data = [1, 2, 3, 4, 5, 6, 1, 1 / 2]\<rparr> 3 k) 1)"
    using i by (simp add: at2_def)
  then have "numpy_to_polygon Polygon \<lparr>dtype_of = Float32, shape = [4, 2], data = [1, 2, 3, 4, 5, 6, 1, 1 / 2]\<rparr>
               = Inl (ValueError (LastComponentNotOne (at2 \<lparr>dtype_of = Float32, shape = [4, 2], data = [1, 2, 3, 4, 5, 6, 1, 1 / 2]\<rparr> 3 1)))"
    using polygon_codec [of "\<lparr>dtype_of = Float32, shape = [4, 2], data = [1, 2, 3, 4, 5, 6, 1, 1 / 2]\<rparr>" Polygon 2 "\<lambda>d v. v" 1] c(4) by blast
  then have h: "numpy_to_polygon Polygon \<lparr>dtype_of = Float32, shape = [4, 2], data = [1, 2, 3, 4, 5, 6, 1, 1 / 2]\<rparr> = Inl (ValueError (LastComponentNotOne (1 / 2)))"
    by (simp only: l)
  from r(1,2,4,5) p q s(1) b d h show ?thesis
    by auto
qed

text \<open>
  The claim as stated fails for an input of 4 rows: a last row that is not close to 1
  raises the error of the homogeneous component, and an encoded input of shape \<open>(4,1)\<close>
  decodes to an array of shape \<open>(3,1)\<close>.
\<close>

theorem polygon_counterexample:
  "can_cast (min_scalar_type \<lparr>dtype_of = Float32, shape = [4, 1], data = [1, 2, 3, 1 / 2]\<rparr>) Float32 \<and> shape \<lparr>dtype_of = Float32, shape = [4, 1], data = [1, 2, 3, 1 / 2]\<rparr> = [4, 1] \<and>
   numpy_to_polygon Polygon \<lparr>dtype_of = Float32, shape = [4, 1], data = [1, 2, 3, 1 / 2]\<rparr> = Inl (ValueError (LastComponentNotOne (1 / 2))) \<and>
   numpy_to_polygon Polygon \<lparr>dtype_of = Float32, shape = [4, 1], data = [1, 2, 3, 1]\<rparr> = Inr (Polygon_msg [Point32_msg 1 2 3]) \<and>
   polygon_to_numpy (\<lambda>d v. v) (Polygon_msg [Point32_msg 1 2 3]) False
     = Inr \<lparr>dtype_of = Float32, shape = [3, 1], data = [1, 2, 3]\<rparr>"
  by (simp add: min_scalar_type_def can_cast_def numpy_to_polygon_def assert_is_castable_def
      as_dtype_def hsplit_squeeze_def numpy_to_vector_def at2_def isclose_def construct_def
      upt4 polygon_to_numpy_def unstamp_def class_of_def stamped_type_to_attr_def
      getattr_points_def vector_to_numpy_def getattr_float_def np_array_def stack_T_def
      to_float32_def upt3 ebind_def)

end
